theory Spec2Isabelle
  imports Main "HOL-Library.Word"
begin

unbundle bit_operations_syntax

section \<open>Character customization lookups of \<open>src/js/db/DBLogic.js\<close>\<close>

text \<open>
  The module keeps its indices in module-level \<open>Map\<close>s and arrays, fills them once in
  \<open>loadTables\<close> and reads them in the query functions. The embedding keeps them in one
  record (\<open>catalog\<close>), makes every JavaScript exception a value (\<open>Inl TypeError\<close>) and
  threads the console through the queries that write to it. Table rows carry the fields
  the module reads, under the names of the source; where two row types share a field name
  the later one gets a suffix.

  The creature-display part of \<open>loadTables\<close> (lines 50-107) fills \<open>creatureDisplays\<close>
  only, which no customization query reads; it is left out.
\<close>

subsection \<open>JavaScript values\<close>

datatype js_error = TypeError

text \<open>
  A JavaScript number that came out of \<open>Number(string)\<close>: an integer that a double holds
  exactly (\<open>Num\<close>), \<open>NaN\<close>, or a double beyond \<open>2^53\<close> whose rounding is not modelled
  (\<open>Rounded\<close>).
\<close>

datatype jsnum = Num int | NaN | Rounded

text \<open>What a lookup query hands back: the value \<open>false\<close>, or a result.\<close>

datatype 'a answer = Unavailable | Answer 'a

text \<open>\<open>Number.prototype.toString()\<close> on an integer.\<close>

definition digit_char :: "nat \<Rightarrow> char" where
  "digit_char d = char_of (48 + d)"

fun digits :: "nat \<Rightarrow> string" where
  "digits n = (if n < 10 then [digit_char n] else digits (n div 10) @ [digit_char (n mod 10)])"

declare digits.simps [simp del]

definition toString :: "int \<Rightarrow> string" where
  "toString i = (if i < 0 then CHR ''-'' # digits (nat (- i)) else digits (nat i))"

text \<open>\<open>String.prototype.padStart(n, '0')\<close>.\<close>

definition padStart :: "nat \<Rightarrow> string \<Rightarrow> string" where
  "padStart n s = replicate (n - length s) CHR ''0'' @ s"

text \<open>
  \<open>Number(s)\<close> on the strings the module builds (a concatenation of \<open>toString\<close> results,
  so signs and decimal digits only): an optional sign and at least one digit read in
  base ten, the empty string is 0, anything else is \<open>NaN\<close>.
\<close>

definition is_digit :: "char \<Rightarrow> bool" where
  "is_digit c = ((48::nat) \<le> of_char c \<and> (of_char c :: nat) \<le> 57)"

definition digit_val :: "char \<Rightarrow> nat" where
  "digit_val c = (of_char c :: nat) - 48"

definition read_decimal :: "string \<Rightarrow> nat" where
  "read_decimal s = foldl (\<lambda>acc c. 10 * acc + digit_val c) 0 s"

definition exact_or_rounded :: "int \<Rightarrow> jsnum" where
  "exact_or_rounded n = (if \<bar>n\<bar> \<le> 2 ^ 53 then Num n else Rounded)"

definition js_Number :: "string \<Rightarrow> jsnum" where
  "js_Number s =
     (case s of
        [] \<Rightarrow> Num 0
      | c # cs \<Rightarrow>
          if c = CHR ''-'' \<and> cs \<noteq> [] \<and> list_all is_digit cs
            then exact_or_rounded (- int (read_decimal cs))
          else if c = CHR ''+'' \<and> cs \<noteq> [] \<and> list_all is_digit cs
            then exact_or_rounded (int (read_decimal cs))
          else if list_all is_digit s then exact_or_rounded (int (read_decimal s))
          else NaN)"

text \<open>
  \<open>mask & (1 << n)\<close> as a condition: both operands are taken to 32 bits, the shift count
  is \<open>n\<close> modulo 32, and the result is truthy when it is not 0.
\<close>

definition js_mask_test :: "int \<Rightarrow> int \<Rightarrow> bool" where
  "js_mask_test bits n =
     ((word_of_int bits :: 32 word) AND push_bit (nat (n mod 32)) 1 \<noteq> 0)"

text \<open>
  \<open>arr[i] = v\<close> on an array seen through \<open>for ... of\<close>: an index from 0 to \<open>2^32 - 2\<close>
  writes the element, extending the array with holes; any other integer key is a plain
  property that the iteration does not visit.
\<close>

definition array_set :: "'a option list \<Rightarrow> int \<Rightarrow> 'a \<Rightarrow> 'a option list" where
  "array_set xs i v =
     (if i < 0 \<or> 4294967295 \<le> i then xs
      else if nat i < length xs then xs[nat i := Some v]
      else xs @ replicate (nat i - length xs) None @ [Some v])"

subsection \<open>Table rows\<close>

text \<open>A table is what \<open>getAllRows()\<close> iterates: the rows with their ids, in order.\<close>

type_synonym 'r table = "(int \<times> 'r) list"

text \<open>\<open>getRow(id)\<close>: the row, or nothing.\<close>

definition getRow :: "'r table \<Rightarrow> int \<Rightarrow> 'r option" where
  "getRow t i = map_of t i"

record TextureFileDataRow =
  UsageType :: int
  MaterialResourcesID_tfd :: int

record ChrModelRow =
  DisplayID :: int
  CharComponentTextureLayoutID_model :: int

record CreatureDisplayInfoRow =
  ModelID :: int

record CreatureModelDataRow =
  FileDataID :: int

record ChrCustomizationOptionRow =
  ChrModelID :: int
  Name_lang_option :: string

record ChrCustomizationChoiceRow =
  ChrCustomizationOptionID :: int
  Name_lang :: string
  OrderIndex :: int

record ChrCustomizationElementRow =
  ChrCustomizationChoiceID :: int
  RelatedChrCustomizationChoiceID :: int
  ChrCustomizationGeosetID :: int
  ChrCustomizationMaterialID :: int

record ChrCustomizationMaterialRow =
  ID :: int
  ChrModelTextureTargetID_row :: int
  MaterialResourcesID_row :: int

record ChrCustomizationGeosetRow =
  GeosetType :: int
  GeosetID :: int

text \<open>\<open>ChrModelTextureTargetID\<close> of a layer row is an array of two; both are kept.\<close>

record ChrModelTextureLayerRow =
  TextureType :: int
  Layer :: int
  TextureSectionTypeBitMask :: int
  ChrModelTextureTargetID_pair :: "int \<times> int"
  CharComponentTextureLayoutsID :: int

record CharComponentTextureSectionsRow =
  CharComponentTextureLayoutID :: int
  SectionType :: int
  X :: int
  Y :: int
  Width :: int
  Height :: int

subsection \<open>The module state\<close>

text \<open>The flattened material record stored in \<open>chrCustMatMap\<close>.\<close>

record chrCustMat =
  ChrModelTextureTargetID :: int
  MaterialResourcesID :: int

record optionEntry =
  option_id :: int
  option_name :: string

record choiceEntry =
  choice_id :: int
  choice_label :: string

record catalog =
  choiceToChrCustMaterialID :: "int \<rightharpoonup> ChrCustomizationElementRow list"
  chrModelIDToTextureLayoutID :: "int \<rightharpoonup> int"
  matResIDToFileDataID :: "int \<rightharpoonup> int"
  fdidToChrModel :: "int \<rightharpoonup> int"
  optionToChoices :: "int \<rightharpoonup> choiceEntry list"
  optionsByChrModel :: "int \<rightharpoonup> optionEntry list"
  choiceToGeoset :: "int \<rightharpoonup> int"
  geosetMap :: "int \<rightharpoonup> jsnum"
  chrCustMatMap :: "int \<rightharpoonup> chrCustMat"
  chrModelTexLayer :: "int \<rightharpoonup> (int \<rightharpoonup> ChrModelTextureLayerRow)"
  charComponentTextureSectionMap :: "int \<rightharpoonup> CharComponentTextureSectionsRow option list"
  chrCustomizationAvailable :: bool

text \<open>The state of the module before \<open>loadTables\<close> has run.\<close>

definition initial_catalog :: catalog where
  "initial_catalog =
     \<lparr> choiceToChrCustMaterialID = Map.empty, chrModelIDToTextureLayoutID = Map.empty,
       matResIDToFileDataID = Map.empty, fdidToChrModel = Map.empty,
       optionToChoices = Map.empty, optionsByChrModel = Map.empty,
       choiceToGeoset = Map.empty, geosetMap = Map.empty, chrCustMatMap = Map.empty,
       chrModelTexLayer = Map.empty, charComponentTextureSectionMap = Map.empty,
       chrCustomizationAvailable = False \<rparr>"

text \<open>
  One entry of the array \<open>getSkinMaterialsForChoice\<close> returns. \<open>FileDataID\<close> is what
  \<open>matResIDToFileDataID.get\<close> gave, so it may be undefined (\<open>None\<close>); the two vectors
  are pairs.
\<close>

record skinMat =
  skin_TextureType :: int
  skin_FileDataID :: "int option"
  skin_size :: "int \<times> int"
  skin_position :: "int \<times> int"

text \<open>\<open>skinMats\<close> is an array written only through \<open>skinMats[Layer] = ...\<close>.\<close>

type_synonym skinMats = "int \<rightharpoonup> skinMat"

record textureInfo =
  tex_TextureType :: int
  tex_FileDataID :: int
  tex_TextureSectionTypeBitMask :: int

datatype logged =
    LogSkinMats skinMats
  | LogCurrent "int list"
  | LogFallback int
  | LogTargetMissing int

text \<open>
  What a query can see and touch: the module state, the caller's current selections
  (\<open>core.view.modelViewerChrCustCurrent\<close>, in the order \<open>forEach\<close> visits them) and the
  console.
\<close>

record world =
  cat :: catalog
  modelViewerChrCustCurrent :: "int list"
  console :: "logged list"

definition console_log :: "logged \<Rightarrow> world \<Rightarrow> world" where
  "console_log l w = w\<lparr>console := console w @ [l]\<rparr>"

subsection \<open>Queries\<close>

text \<open>
  \<open>getChrComponentTextureLayoutIDByChrModelID\<close>: \<open>Map.get\<close> on a model id that may
  itself be undefined (no key is), giving the layout id or undefined.
\<close>

definition getChrComponentTextureLayoutIDByChrModelID :: "catalog \<Rightarrow> int option \<Rightarrow> int option" where
  "getChrComponentTextureLayoutIDByChrModelID c chrModelID =
     (case chrModelID of None \<Rightarrow> None | Some m \<Rightarrow> chrModelIDToTextureLayoutID c m)"

definition isCharacterCustomizationAvailable :: "catalog \<Rightarrow> bool" where
  "isCharacterCustomizationAvailable c = chrCustomizationAvailable c"

text \<open>
  \<open>getGeosetForChoice\<close> returns \<open>false\<close>, or what \<open>geosetMap.get\<close> gives: a number, or
  undefined when the geoset id has no entry.
\<close>

datatype geosetResult = GeosetFalse | GeosetUndefined | GeosetNumber jsnum

definition getGeosetForChoice :: "catalog \<Rightarrow> int \<Rightarrow> geosetResult" where
  "getGeosetForChoice c choiceID =
     (case choiceToGeoset c choiceID of
        Some g \<Rightarrow> (case geosetMap c g of None \<Rightarrow> GeosetUndefined | Some k \<Rightarrow> GeosetNumber k)
      | None \<Rightarrow> GeosetFalse)"

text \<open>
  The inner loop of \<open>getSkinMaterialsForChoice\<close> (lines 350-363): every section of the
  layout that is not a hole writes \<open>skinMats[textureLayer.Layer]\<close>, with the fixed
  rectangle when the mask is -1 and with its own rectangle when its bit is in the mask.
\<close>

definition wholeAtlasMat :: "ChrModelTextureLayerRow \<Rightarrow> int option \<Rightarrow> skinMat" where
  "wholeAtlasMat textureLayer fd =
     \<lparr> skin_TextureType = TextureType textureLayer, skin_FileDataID = fd,
       skin_size = (1024, 512), skin_position = (0, 0) \<rparr>"

definition sectionMat ::
  "ChrModelTextureLayerRow \<Rightarrow> int option \<Rightarrow> CharComponentTextureSectionsRow \<Rightarrow> skinMat" where
  "sectionMat textureLayer fd textureSection =
     \<lparr> skin_TextureType = TextureType textureLayer, skin_FileDataID = fd,
       skin_size = (Width textureSection, Height textureSection),
       skin_position = (X textureSection, Y textureSection) \<rparr>"

fun paintSections ::
  "ChrModelTextureLayerRow \<Rightarrow> int option \<Rightarrow> CharComponentTextureSectionsRow option list
     \<Rightarrow> skinMats \<Rightarrow> skinMats" where
  "paintSections textureLayer fd [] skinMats = skinMats"
| "paintSections textureLayer fd (None # textureSections) skinMats =
     paintSections textureLayer fd textureSections skinMats"
| "paintSections textureLayer fd (Some textureSection # textureSections) skinMats =
     paintSections textureLayer fd textureSections
       (if TextureSectionTypeBitMask textureLayer = - 1
          then skinMats(Layer textureLayer \<mapsto> wholeAtlasMat textureLayer fd)
        else if js_mask_test (TextureSectionTypeBitMask textureLayer) (SectionType textureSection)
          then skinMats(Layer textureLayer \<mapsto> sectionMat textureLayer fd textureSection)
        else skinMats)"

text \<open>
  The outer loop (lines 342-364) over \<open>chrCustMatRows\<close>, whose entries are what
  \<open>chrCustMatMap.get\<close> gave: reading a field of an undefined entry throws, indexing an
  undefined \<open>chrModelTexLayer[textureLayout]\<close> throws, a target without a layer is
  skipped.
\<close>

fun skinLoop ::
  "catalog \<Rightarrow> int \<Rightarrow> CharComponentTextureSectionsRow option list \<Rightarrow> chrCustMat option list
     \<Rightarrow> skinMats \<Rightarrow> js_error + skinMats" where
  "skinLoop c textureLayout textureSections [] skinMats = Inr skinMats"
| "skinLoop c textureLayout textureSections (None # rows) skinMats = Inl TypeError"
| "skinLoop c textureLayout textureSections (Some row # rows) skinMats =
     (case chrModelTexLayer c textureLayout of
        None \<Rightarrow> Inl TypeError
      | Some layers \<Rightarrow>
          (case layers (ChrModelTextureTargetID row) of
             None \<Rightarrow> skinLoop c textureLayout textureSections rows skinMats
           | Some textureLayer \<Rightarrow>
               skinLoop c textureLayout textureSections rows
                 (paintSections textureLayer (matResIDToFileDataID c (MaterialResourcesID row))
                    textureSections skinMats)))"

text \<open>
  \<open>getSkinMaterialsForChoice\<close> (lines 318-368). \<open>!textureLayout\<close> holds for undefined
  and for 0. \<open>for (const material of materials)\<close> throws when the choice has no list.
  The result is logged before it is returned.
\<close>

definition getSkinMaterialsForChoice ::
  "world \<Rightarrow> int \<Rightarrow> int \<Rightarrow> (js_error + skinMats answer) \<times> world" where
  "getSkinMaterialsForChoice w modelFileDataID choiceID =
     (let c = cat w;
          chrModelID = fdidToChrModel c modelFileDataID;
          textureLayout = getChrComponentTextureLayoutIDByChrModelID c chrModelID
      in case textureLayout of
           None \<Rightarrow> (Inr Unavailable, w)
         | Some layout \<Rightarrow>
             if layout = 0 then (Inr Unavailable, w)
             else
               (case choiceToChrCustMaterialID c choiceID of
                  None \<Rightarrow> (Inl TypeError, w)
                | Some materials \<Rightarrow>
                    (let chrCustMatRows =
                           map (\<lambda>material. chrCustMatMap c (ChrCustomizationMaterialID material))
                             materials
                     in if chrCustMatRows = [] then (Inr Unavailable, w)
                        else
                          (case charComponentTextureSectionMap c layout of
                             None \<Rightarrow> (Inr Unavailable, w)
                           | Some textureSections \<Rightarrow>
                               (case skinLoop c layout textureSections chrCustMatRows Map.empty of
                                  Inl e \<Rightarrow> (Inl e, w)
                                | Inr skinMats \<Rightarrow>
                                    (Inr (Answer skinMats),
                                     console_log (LogSkinMats skinMats) w))))))"

text \<open>
  The two nested \<open>forEach\<close> of \<open>getTextureForFileDataIDAndChoice\<close> (lines 386-392):
  every pair of a current selection and a candidate whose related choice equals it
  assigns \<open>chrCustMatID\<close>; nothing stops the iteration.
\<close>

definition scanChoices :: "ChrCustomizationElementRow list \<Rightarrow> int \<Rightarrow> int \<Rightarrow> int" where
  "scanChoices availableChoices chrCustMatID entry =
     foldl (\<lambda>acc availableChoice.
              if RelatedChrCustomizationChoiceID availableChoice = entry
                then ChrCustomizationMaterialID availableChoice else acc)
       chrCustMatID availableChoices"

definition scanCurrent :: "int list \<Rightarrow> ChrCustomizationElementRow list \<Rightarrow> int" where
  "scanCurrent current availableChoices = foldl (scanChoices availableChoices) 0 current"

text \<open>
  Lines 399-423, from the chosen material id on. \<open>textureTarget in
  chrModelTexLayer[textureLayout]\<close> throws when the layout has no layer array.
\<close>

definition resolveMaterial ::
  "world \<Rightarrow> int option \<Rightarrow> int \<Rightarrow> (js_error + textureInfo answer) \<times> world" where
  "resolveMaterial w chrModelID chrCustMatID =
     (let c = cat w in
      case chrCustMatMap c chrCustMatID of
        None \<Rightarrow> (Inr Unavailable, w)
      | Some chrCustMatRow \<Rightarrow>
          (case getChrComponentTextureLayoutIDByChrModelID c chrModelID of
             None \<Rightarrow> (Inr Unavailable, w)
           | Some textureLayout \<Rightarrow>
               if textureLayout = 0 then (Inr Unavailable, w)
               else
                 (let textureTarget = ChrModelTextureTargetID chrCustMatRow in
                  case chrModelTexLayer c textureLayout of
                    None \<Rightarrow> (Inl TypeError, w)
                  | Some layers \<Rightarrow>
                      (case layers textureTarget of
                         None \<Rightarrow> (Inr Unavailable, console_log (LogTargetMissing textureTarget) w)
                       | Some textureLayer \<Rightarrow>
                           (case matResIDToFileDataID c (MaterialResourcesID chrCustMatRow) of
                              Some fd \<Rightarrow>
                                (Inr (Answer
                                   \<lparr> tex_TextureType = TextureType textureLayer,
                                     tex_FileDataID = fd,
                                     tex_TextureSectionTypeBitMask =
                                       TextureSectionTypeBitMask textureLayer \<rparr>), w)
                            | None \<Rightarrow> (Inr Unavailable, w))))))"

text \<open>
  \<open>getTextureForFileDataIDAndChoice\<close> (lines 374-424). The current selections are
  logged once the choice is known to have candidates; when the scan leaves
  \<open>chrCustMatID\<close> at 0 the fallback is logged and \<open>availableChoices[0]\<close> is read, which
  throws on an empty list.
\<close>

definition getTextureForFileDataIDAndChoice ::
  "world \<Rightarrow> int \<Rightarrow> int \<Rightarrow> (js_error + textureInfo answer) \<times> world" where
  "getTextureForFileDataIDAndChoice w modelFileDataID choiceID =
     (let c = cat w;
          chrModelID = fdidToChrModel c modelFileDataID
      in case choiceToChrCustMaterialID c choiceID of
           None \<Rightarrow> (Inr Unavailable, w)
         | Some availableChoices \<Rightarrow>
             (let w1 = console_log (LogCurrent (modelViewerChrCustCurrent w)) w;
                  chrCustMatID = scanCurrent (modelViewerChrCustCurrent w) availableChoices
              in if chrCustMatID = 0
                 then (let w2 = console_log (LogFallback choiceID) w1 in
                       case availableChoices of
                         [] \<Rightarrow> (Inl TypeError, w2)
                       | first # _ \<Rightarrow>
                           resolveMaterial w2 chrModelID (ChrCustomizationMaterialID first))
                 else resolveMaterial w1 chrModelID chrCustMatID))"

subsection \<open>Loading\<close>

text \<open>
  What \<open>loadTables\<close> reads: the configuration flag, whether the listfile knows
  \<open>DBFilesClient/ChrModel.db2\<close>, and the parsed tables.
\<close>

record env =
  enableCharacterCustomization :: bool
  ChrModel_db2_listed :: bool
  textureFileData :: "TextureFileDataRow table"
  chrModel :: "ChrModelRow table"
  creatureDisplayInfo :: "CreatureDisplayInfoRow table"
  creatureModelData :: "CreatureModelDataRow table"
  chrCustomizationOption :: "ChrCustomizationOptionRow table"
  chrCustomizationChoice :: "ChrCustomizationChoiceRow table"
  chrCustomizationMaterial :: "ChrCustomizationMaterialRow table"
  chrCustomizationElement :: "ChrCustomizationElementRow table"
  chrCustomizationGeoset :: "ChrCustomizationGeosetRow table"
  chrModelTextureLayer :: "ChrModelTextureLayerRow table"
  charComponentTextureSections :: "CharComponentTextureSectionsRow table"

text \<open>Lines 113-120: only rows of usage type 0 are indexed.\<close>

fun loadTextureFileData :: "TextureFileDataRow table \<Rightarrow> catalog \<Rightarrow> catalog" where
  "loadTextureFileData [] c = c"
| "loadTextureFileData ((textureFileDataID, textureFileDataRow) # rest) c =
     loadTextureFileData rest
       (if UsageType textureFileDataRow \<noteq> 0 then c
        else c\<lparr>matResIDToFileDataID :=
                 (matResIDToFileDataID c)
                   (MaterialResourcesID_tfd textureFileDataRow \<mapsto> textureFileDataID)\<rparr>)"

text \<open>Lines 154-167: the choices of one option, named \<open>Choice n\<close> when the row has no name.\<close>

definition choiceName :: "ChrCustomizationChoiceRow \<Rightarrow> string" where
  "choiceName row =
     (if Name_lang row \<noteq> [] then Name_lang row else ''Choice '' @ toString (OrderIndex row))"

definition choiceList :: "ChrCustomizationChoiceRow table \<Rightarrow> int \<Rightarrow> choiceEntry list" where
  "choiceList choices chrCustomizationOptionID =
     map (\<lambda>(chrCustomizationChoiceID, row).
            \<lparr> choice_id = chrCustomizationChoiceID, choice_label = choiceName row \<rparr>)
       (filter (\<lambda>(chrCustomizationChoiceID, row).
                  ChrCustomizationOptionID row = chrCustomizationOptionID) choices)"

text \<open>Lines 142-170: the options of one model.\<close>

fun loadOptions ::
  "ChrCustomizationChoiceRow table \<Rightarrow> int \<Rightarrow> ChrCustomizationOptionRow table
     \<Rightarrow> catalog \<Rightarrow> catalog" where
  "loadOptions choices chrModelID [] c = c"
| "loadOptions choices chrModelID ((chrCustomizationOptionID, row) # rest) c =
     (if ChrModelID row \<noteq> chrModelID then loadOptions choices chrModelID rest c
      else
        loadOptions choices chrModelID rest
          (c\<lparr>optionsByChrModel :=
               (optionsByChrModel c)
                 (ChrModelID row \<mapsto>
                    (case optionsByChrModel c (ChrModelID row) of None \<Rightarrow> [] | Some l \<Rightarrow> l)
                      @ [\<lparr> option_id = chrCustomizationOptionID,
                           option_name = Name_lang_option row \<rparr>]),
              optionToChoices :=
                (optionToChoices c)
                  (chrCustomizationOptionID \<mapsto> choiceList choices chrCustomizationOptionID)\<rparr>))"

text \<open>
  Lines 136-171. \<open>getRow\<close> gives nothing for an unknown id, and the field read that
  follows throws.
\<close>

fun loadChrModels :: "env \<Rightarrow> ChrModelRow table \<Rightarrow> catalog \<Rightarrow> js_error + catalog" where
  "loadChrModels e [] c = Inr c"
| "loadChrModels e ((chrModelID, chrModelRow) # rest) c =
     (case getRow (creatureDisplayInfo e) (DisplayID chrModelRow) of
        None \<Rightarrow> Inl TypeError
      | Some displayRow \<Rightarrow>
          (case getRow (creatureModelData e) (ModelID displayRow) of
             None \<Rightarrow> Inl TypeError
           | Some modelRow \<Rightarrow>
               loadChrModels e rest
                 (loadOptions (chrCustomizationChoice e) chrModelID (chrCustomizationOption e)
                    (c\<lparr>fdidToChrModel := (fdidToChrModel c)(FileDataID modelRow \<mapsto> chrModelID),
                        chrModelIDToTextureLayoutID :=
                          (chrModelIDToTextureLayoutID c)
                            (chrModelID \<mapsto> CharComponentTextureLayoutID_model chrModelRow)\<rparr>))))"

text \<open>Lines 178-192: the geoset and the material bindings of the choices.\<close>

definition bindGeoset :: "ChrCustomizationElementRow \<Rightarrow> catalog \<Rightarrow> catalog" where
  "bindGeoset row c =
     (if ChrCustomizationGeosetID row \<noteq> 0
        then c\<lparr>choiceToGeoset :=
                 (choiceToGeoset c)(ChrCustomizationChoiceID row \<mapsto> ChrCustomizationGeosetID row)\<rparr>
      else c)"

definition bindMaterial :: "ChrCustomizationElementRow \<Rightarrow> catalog \<Rightarrow> catalog" where
  "bindMaterial row c =
     c\<lparr>choiceToChrCustMaterialID :=
         (choiceToChrCustMaterialID c)
           (ChrCustomizationChoiceID row \<mapsto>
              (case choiceToChrCustMaterialID c (ChrCustomizationChoiceID row) of
                 Some l \<Rightarrow> l @ [row]
               | None \<Rightarrow> [row]))\<rparr>"

fun loadElements ::
  "ChrCustomizationMaterialRow table \<Rightarrow> ChrCustomizationElementRow table \<Rightarrow> catalog
     \<Rightarrow> js_error + catalog" where
  "loadElements materials [] c = Inr c"
| "loadElements materials ((chrCustomizationElementID, row) # rest) c =
     (let c1 = bindGeoset row c in
      if ChrCustomizationMaterialID row \<noteq> 0
      then (let c2 = bindMaterial row c1 in
            case getRow materials (ChrCustomizationMaterialID row) of
              None \<Rightarrow> Inl TypeError
            | Some matRow \<Rightarrow>
                loadElements materials rest
                  (c2\<lparr>chrCustMatMap :=
                        (chrCustMatMap c2)
                          (ID matRow \<mapsto>
                             \<lparr> ChrModelTextureTargetID = ChrModelTextureTargetID_row matRow,
                               MaterialResourcesID = MaterialResourcesID_row matRow \<rparr>)\<rparr>))
      else loadElements materials rest c1)"

text \<open>Lines 197-201: the geoset key of a row.\<close>

definition geosetKey :: "ChrCustomizationGeosetRow \<Rightarrow> jsnum" where
  "geosetKey row =
     js_Number (padStart 2 (toString (GeosetType row)) @ padStart 2 (toString (GeosetID row)))"

fun loadGeosets :: "ChrCustomizationGeosetRow table \<Rightarrow> catalog \<Rightarrow> catalog" where
  "loadGeosets [] c = c"
| "loadGeosets ((chrCustomizationGeosetID, row) # rest) c =
     loadGeosets rest
       (c\<lparr>geosetMap := (geosetMap c)(chrCustomizationGeosetID \<mapsto> geosetKey row)\<rparr>)"

text \<open>Lines 206-212: layers by layout, then by the first texture target of the row.\<close>

fun loadLayers :: "ChrModelTextureLayerRow table \<Rightarrow> catalog \<Rightarrow> catalog" where
  "loadLayers [] c = c"
| "loadLayers ((chrModelTextureLayerID, row) # rest) c =
     loadLayers rest
       (c\<lparr>chrModelTexLayer :=
            (chrModelTexLayer c)
              (CharComponentTextureLayoutsID row \<mapsto>
                 (case chrModelTexLayer c (CharComponentTextureLayoutsID row) of
                    None \<Rightarrow> Map.empty
                  | Some layers \<Rightarrow> layers)
                 (fst (ChrModelTextureTargetID_pair row) \<mapsto> row))\<rparr>)"

text \<open>Lines 217-223: sections by layout, in an array indexed by section type.\<close>

fun loadSections :: "CharComponentTextureSectionsRow table \<Rightarrow> catalog \<Rightarrow> catalog" where
  "loadSections [] c = c"
| "loadSections ((charComponentTextureSectionsID, row) # rest) c =
     loadSections rest
       (c\<lparr>charComponentTextureSectionMap :=
            (charComponentTextureSectionMap c)
              (CharComponentTextureLayoutID row \<mapsto>
                 array_set
                   (case charComponentTextureSectionMap c (CharComponentTextureLayoutID row) of
                      None \<Rightarrow> []
                    | Some sections \<Rightarrow> sections)
                   (SectionType row) row)\<rparr>)"

text \<open>
  \<open>loadTables\<close> from line 109 on. The customization tables are read only behind the
  gate of line 123. A load that throws gives \<open>Inl\<close>; the half-filled state it leaves
  behind is not modelled.
\<close>

definition loadTables :: "env \<Rightarrow> catalog \<Rightarrow> js_error + catalog" where
  "loadTables e c0 =
     (let c1 = loadTextureFileData (textureFileData e) c0 in
      if enableCharacterCustomization e \<and> ChrModel_db2_listed e
      then (let c2 = c1\<lparr>chrCustomizationAvailable := True\<rparr> in
            case loadChrModels e (chrModel e) c2 of
              Inl err \<Rightarrow> Inl err
            | Inr c3 \<Rightarrow>
                (case loadElements (chrCustomizationMaterial e) (chrCustomizationElement e) c3 of
                   Inl err \<Rightarrow> Inl err
                 | Inr c4 \<Rightarrow>
                     Inr (loadSections (charComponentTextureSections e)
                            (loadLayers (chrModelTextureLayer e)
                               (loadGeosets (chrCustomizationGeoset e) c4)))))
      else Inr c1)"

subsection \<open>Notions used to state the properties\<close>

text \<open>The texture layer registered for a layout and a texture target, if any.\<close>

definition layerAt :: "catalog \<Rightarrow> int \<Rightarrow> int \<Rightarrow> ChrModelTextureLayerRow option" where
  "layerAt c textureLayout textureTarget =
     (case chrModelTexLayer c textureLayout of
        None \<Rightarrow> None
      | Some layers \<Rightarrow> layers textureTarget)"

text \<open>The texture layer a material element resolves to under a layout, if any.\<close>

definition layerOfMaterial ::
  "catalog \<Rightarrow> int \<Rightarrow> ChrCustomizationElementRow \<Rightarrow> ChrModelTextureLayerRow option" where
  "layerOfMaterial c textureLayout material =
     (case chrCustMatMap c (ChrCustomizationMaterialID material) of
        None \<Rightarrow> None
      | Some row \<Rightarrow> layerAt c textureLayout (ChrModelTextureTargetID row))"

text \<open>The sections of a layout that are there, in the order the loop meets them.\<close>

fun presentSections :: "'a option list \<Rightarrow> 'a list" where
  "presentSections [] = []"
| "presentSections (None # xs) = presentSections xs"
| "presentSections (Some x # xs) = x # presentSections xs"


text \<open>
  The candidates whose related choice equals a current selection, by selection and
  then by position in the candidate list.
\<close>

definition relatedMatches ::
  "int list \<Rightarrow> ChrCustomizationElementRow list \<Rightarrow> ChrCustomizationElementRow list" where
  "relatedMatches current availableChoices =
     concat (map (\<lambda>entry. filter (\<lambda>availableChoice.
                                     RelatedChrCustomizationChoiceID availableChoice = entry)
                            availableChoices)
               current)"

text \<open>
  The geoset ids that the element rows bind to a choice, in table order. The loader
  keeps the last one.
\<close>

definition boundGeosets :: "ChrCustomizationElementRow table \<Rightarrow> int \<Rightarrow> int list" where
  "boundGeosets elements choiceID =
     map (\<lambda>(chrCustomizationElementID, row). ChrCustomizationGeosetID row)
       (filter (\<lambda>(chrCustomizationElementID, row).
                  ChrCustomizationChoiceID row = choiceID \<and> ChrCustomizationGeosetID row \<noteq> 0)
          elements)"

subsection \<open>A small data set\<close>

text \<open>
  Four character models over the layouts 3, 4, 6 and 0. Layout 3 has layers and
  sections, layout 4 has neither, layout 6 has a layer and no section, layout 0 has
  both. Choice 5 is bound to the materials 10 and 11 (related to the choices 7 and 9)
  and to geoset 8.
\<close>

definition demo_env :: env where
  "demo_env =
     \<lparr> enableCharacterCustomization = True, ChrModel_db2_listed = True,
       textureFileData =
         [(2010, \<lparr>UsageType = 0, MaterialResourcesID_tfd = 70\<rparr>),
          (2011, \<lparr>UsageType = 0, MaterialResourcesID_tfd = 71\<rparr>),
          (2999, \<lparr>UsageType = 1, MaterialResourcesID_tfd = 70\<rparr>)],
       chrModel =
         [(1, \<lparr>DisplayID = 50, CharComponentTextureLayoutID_model = 3\<rparr>),
          (2, \<lparr>DisplayID = 51, CharComponentTextureLayoutID_model = 4\<rparr>),
          (3, \<lparr>DisplayID = 52, CharComponentTextureLayoutID_model = 6\<rparr>),
          (4, \<lparr>DisplayID = 53, CharComponentTextureLayoutID_model = 0\<rparr>)],
       creatureDisplayInfo =
         [(50, \<lparr>ModelID = 60\<rparr>), (51, \<lparr>ModelID = 61\<rparr>), (52, \<lparr>ModelID = 62\<rparr>),
          (53, \<lparr>ModelID = 63\<rparr>)],
       creatureModelData =
         [(60, \<lparr>FileDataID = 100\<rparr>), (61, \<lparr>FileDataID = 101\<rparr>), (62, \<lparr>FileDataID = 102\<rparr>),
          (63, \<lparr>FileDataID = 103\<rparr>)],
       chrCustomizationOption =
         [(20, \<lparr>ChrModelID = 1, Name_lang_option = ''Skin Color''\<rparr>)],
       chrCustomizationChoice =
         [(5, \<lparr>ChrCustomizationOptionID = 20, Name_lang = [], OrderIndex = 0\<rparr>)],
       chrCustomizationMaterial =
         [(10, \<lparr>ID = 10, ChrModelTextureTargetID_row = 2, MaterialResourcesID_row = 70\<rparr>),
          (11, \<lparr>ID = 11, ChrModelTextureTargetID_row = 4, MaterialResourcesID_row = 71\<rparr>)],
       chrCustomizationElement =
         [(1, \<lparr>ChrCustomizationChoiceID = 5, RelatedChrCustomizationChoiceID = 7,
               ChrCustomizationGeosetID = 0, ChrCustomizationMaterialID = 10\<rparr>),
          (2, \<lparr>ChrCustomizationChoiceID = 5, RelatedChrCustomizationChoiceID = 9,
               ChrCustomizationGeosetID = 0, ChrCustomizationMaterialID = 11\<rparr>),
          (3, \<lparr>ChrCustomizationChoiceID = 5, RelatedChrCustomizationChoiceID = 0,
               ChrCustomizationGeosetID = 8, ChrCustomizationMaterialID = 0\<rparr>)],
       chrCustomizationGeoset =
         [(8, \<lparr>GeosetType = 1, GeosetID = 5\<rparr>), (9, \<lparr>GeosetType = 12, GeosetID = 3\<rparr>)],
       chrModelTextureLayer =
         [(1, \<lparr>TextureType = 1, Layer = 0, TextureSectionTypeBitMask = - 1,
               ChrModelTextureTargetID_pair = (2, 0), CharComponentTextureLayoutsID = 3\<rparr>),
          (2, \<lparr>TextureType = 6, Layer = 1, TextureSectionTypeBitMask = 5,
               ChrModelTextureTargetID_pair = (4, 0), CharComponentTextureLayoutsID = 3\<rparr>),
          (3, \<lparr>TextureType = 1, Layer = 0, TextureSectionTypeBitMask = - 1,
               ChrModelTextureTargetID_pair = (2, 0), CharComponentTextureLayoutsID = 6\<rparr>),
          (4, \<lparr>TextureType = 1, Layer = 0, TextureSectionTypeBitMask = - 1,
               ChrModelTextureTargetID_pair = (2, 0), CharComponentTextureLayoutsID = 0\<rparr>)],
       charComponentTextureSections =
         [(1, \<lparr>CharComponentTextureLayoutID = 3, SectionType = 0, X = 0, Y = 0,
               Width = 256, Height = 256\<rparr>),
          (2, \<lparr>CharComponentTextureLayoutID = 3, SectionType = 2, X = 256, Y = 0,
               Width = 128, Height = 64\<rparr>),
          (3, \<lparr>CharComponentTextureLayoutID = 3, SectionType = 1, X = 0, Y = 256,
               Width = 128, Height = 32\<rparr>),
          (4, \<lparr>CharComponentTextureLayoutID = 3, SectionType = 4, X = 128, Y = 256,
               Width = 64, Height = 32\<rparr>),
          (5, \<lparr>CharComponentTextureLayoutID = 0, SectionType = 0, X = 0, Y = 0,
               Width = 256, Height = 256\<rparr>)] \<rparr>"


definition demo_element1 :: ChrCustomizationElementRow where
  "demo_element1 =
     \<lparr>ChrCustomizationChoiceID = 5, RelatedChrCustomizationChoiceID = 7,
      ChrCustomizationGeosetID = 0, ChrCustomizationMaterialID = 10\<rparr>"

definition demo_element2 :: ChrCustomizationElementRow where
  "demo_element2 =
     \<lparr>ChrCustomizationChoiceID = 5, RelatedChrCustomizationChoiceID = 9,
      ChrCustomizationGeosetID = 0, ChrCustomizationMaterialID = 11\<rparr>"

definition demo_layer :: "int \<Rightarrow> ChrModelTextureLayerRow" where
  "demo_layer layout =
     \<lparr>TextureType = 1, Layer = 0, TextureSectionTypeBitMask = - 1,
      ChrModelTextureTargetID_pair = (2, 0), CharComponentTextureLayoutsID = layout\<rparr>"

definition demo_masked_layer :: ChrModelTextureLayerRow where
  "demo_masked_layer =
     \<lparr>TextureType = 6, Layer = 1, TextureSectionTypeBitMask = 5,
      ChrModelTextureTargetID_pair = (4, 0), CharComponentTextureLayoutsID = 3\<rparr>"

definition demo_section :: "int \<Rightarrow> int \<Rightarrow> int \<Rightarrow> int \<Rightarrow> int \<Rightarrow> int \<Rightarrow> CharComponentTextureSectionsRow" where
  "demo_section layout t x y w h =
     \<lparr>CharComponentTextureLayoutID = layout, SectionType = t, X = x, Y = y,
      Width = w, Height = h\<rparr>"

definition demo_sections :: "CharComponentTextureSectionsRow option list" where
  "demo_sections =
     [Some (demo_section 3 0 0 0 256 256), Some (demo_section 3 1 0 256 128 32),
      Some (demo_section 3 2 256 0 128 64), None, Some (demo_section 3 4 128 256 64 32)]"

definition demo_catalog :: catalog where
  "demo_catalog =
     \<lparr> choiceToChrCustMaterialID = [5 \<mapsto> [demo_element1, demo_element2]],
       chrModelIDToTextureLayoutID = [1 \<mapsto> 3, 2 \<mapsto> 4, 3 \<mapsto> 6, 4 \<mapsto> 0],
       matResIDToFileDataID = [70 \<mapsto> 2010, 71 \<mapsto> 2011],
       fdidToChrModel = [100 \<mapsto> 1, 101 \<mapsto> 2, 102 \<mapsto> 3, 103 \<mapsto> 4],
       optionToChoices = [20 \<mapsto> [\<lparr>choice_id = 5, choice_label = ''Choice 0''\<rparr>]],
       optionsByChrModel = [1 \<mapsto> [\<lparr>option_id = 20, option_name = ''Skin Color''\<rparr>]],
       choiceToGeoset = [5 \<mapsto> 8],
       geosetMap = [8 \<mapsto> Num 105, 9 \<mapsto> Num 1203],
       chrCustMatMap =
         [10 \<mapsto> \<lparr>ChrModelTextureTargetID = 2, MaterialResourcesID = 70\<rparr>,
          11 \<mapsto> \<lparr>ChrModelTextureTargetID = 4, MaterialResourcesID = 71\<rparr>],
       chrModelTexLayer =
         [3 \<mapsto> [2 \<mapsto> demo_layer 3, 4 \<mapsto> demo_masked_layer],
          6 \<mapsto> [2 \<mapsto> demo_layer 6], 0 \<mapsto> [2 \<mapsto> demo_layer 0]],
       charComponentTextureSectionMap =
         [3 \<mapsto> demo_sections, 0 \<mapsto> [Some (demo_section 0 0 0 0 256 256)]],
       chrCustomizationAvailable = True \<rparr>"

definition demo_world :: "int list \<Rightarrow> world" where
  "demo_world current = \<lparr>cat = demo_catalog, modelViewerChrCustCurrent = current, console = []\<rparr>"

section \<open>Properties\<close>

subsection \<open>The data set is what the loader builds\<close>

lemma demo_geosetKeys:
  "geosetKey \<lparr>GeosetType = 1, GeosetID = 5\<rparr> = Num 105"
  "geosetKey \<lparr>GeosetType = 12, GeosetID = 3\<rparr> = Num 1203"
  by code_simp+

lemma demo_choice_label: "toString 0 = ''0''"
  by code_simp

lemma loadTables_demo: "loadTables demo_env initial_catalog = Inr demo_catalog"
  by (simp add: loadTables_def demo_env_def initial_catalog_def getRow_def bindGeoset_def
      bindMaterial_def choiceList_def choiceName_def demo_geosetKeys demo_choice_label
      array_set_def demo_catalog_def demo_element1_def demo_element2_def demo_layer_def
      demo_masked_layer_def demo_section_def demo_sections_def)

subsection \<open>Queries on a choice without materials, or a layout without layers\<close>

text \<open>
  Claim C1: with a resolved texture layout and no material elements for the choice,
  \<open>getSkinMaterialsForChoice\<close> is to return \<open>false\<close>. In the loaded data set mesh 100
  has layout 3 and choice 6 has no material element; the iteration over the missing
  list throws before the emptiness check of line 331 is reached.
\<close>

theorem getSkinMaterialsForChoice_unbound_choice_throws:
  "fst (getSkinMaterialsForChoice (demo_world []) 100 6) = Inl TypeError"
  by (simp add: getSkinMaterialsForChoice_def demo_world_def demo_catalog_def
      getChrComponentTextureLayoutIDByChrModelID_def)

text \<open>
  Claim C3: every missing resolution step of \<open>getTextureForFileDataIDAndChoice\<close> is to
  give \<open>false\<close>, never an exception. Mesh 101 has layout 4, for which no layer row
  exists; the membership test of line 412 then runs on an undefined array and throws.
\<close>

theorem getTextureForFileDataIDAndChoice_layerless_layout_throws:
  "fst (getTextureForFileDataIDAndChoice (demo_world []) 101 5) = Inl TypeError"
  by (simp add: getTextureForFileDataIDAndChoice_def resolveMaterial_def demo_world_def
      demo_catalog_def getChrComponentTextureLayoutIDByChrModelID_def scanCurrent_def
      console_log_def demo_element1_def)

subsection \<open>The queries only read\<close>

lemma getSkinMaterialsForChoice_frame:
  "cat (snd (getSkinMaterialsForChoice w fd ch)) = cat w \<and>
   modelViewerChrCustCurrent (snd (getSkinMaterialsForChoice w fd ch)) =
     modelViewerChrCustCurrent w"
  by (simp add: getSkinMaterialsForChoice_def console_log_def Let_def
      split: option.split sum.split)

lemma resolveMaterial_frame:
  "cat (snd (resolveMaterial w m i)) = cat w \<and>
   modelViewerChrCustCurrent (snd (resolveMaterial w m i)) = modelViewerChrCustCurrent w"
  by (simp add: resolveMaterial_def console_log_def Let_def split: option.split)

lemma getTextureForFileDataIDAndChoice_frame:
  "cat (snd (getTextureForFileDataIDAndChoice w fd ch)) = cat w \<and>
   modelViewerChrCustCurrent (snd (getTextureForFileDataIDAndChoice w fd ch)) =
     modelViewerChrCustCurrent w"
  by (simp add: getTextureForFileDataIDAndChoice_def console_log_def Let_def
      resolveMaterial_frame split: option.split list.split)

lemma getSkinMaterialsForChoice_reads:
  "cat w = cat w' \<Longrightarrow>
   fst (getSkinMaterialsForChoice w fd ch) = fst (getSkinMaterialsForChoice w' fd ch)"
  by (simp add: getSkinMaterialsForChoice_def Let_def split: option.split sum.split)

lemma resolveMaterial_reads:
  "cat w = cat w' \<Longrightarrow> fst (resolveMaterial w m i) = fst (resolveMaterial w' m i)"
  by (simp add: resolveMaterial_def Let_def split: option.split)

lemma getTextureForFileDataIDAndChoice_reads:
  "cat w = cat w' \<Longrightarrow> modelViewerChrCustCurrent w = modelViewerChrCustCurrent w' \<Longrightarrow>
   fst (getTextureForFileDataIDAndChoice w fd ch) =
     fst (getTextureForFileDataIDAndChoice w' fd ch)"
  unfolding getTextureForFileDataIDAndChoice_def Let_def
  by (auto split: option.split list.split intro!: resolveMaterial_reads simp: console_log_def)

text \<open>
  Claim C9: \<open>getSkinMaterialsForChoice\<close> and \<open>getTextureForFileDataIDAndChoice\<close> leave
  the module state as it was (they write to the console only), so a call gives the
  same result after any earlier call of either query as before it.
\<close>

theorem queries_leave_catalog_unchanged:
  "cat (snd (getSkinMaterialsForChoice w fd ch)) = cat w \<and>
   cat (snd (getTextureForFileDataIDAndChoice w fd ch)) = cat w \<and>
   fst (getSkinMaterialsForChoice (snd (getSkinMaterialsForChoice w fd ch)) fd ch) =
     fst (getSkinMaterialsForChoice w fd ch) \<and>
   fst (getTextureForFileDataIDAndChoice (snd (getTextureForFileDataIDAndChoice w fd ch)) fd ch) =
     fst (getTextureForFileDataIDAndChoice w fd ch) \<and>
   fst (getSkinMaterialsForChoice (snd (getTextureForFileDataIDAndChoice w fd' ch')) fd ch) =
     fst (getSkinMaterialsForChoice w fd ch) \<and>
   fst (getTextureForFileDataIDAndChoice (snd (getSkinMaterialsForChoice w fd' ch')) fd ch) =
     fst (getTextureForFileDataIDAndChoice w fd ch)"
  by (simp add: getSkinMaterialsForChoice_frame getTextureForFileDataIDAndChoice_frame
      getSkinMaterialsForChoice_reads [of "snd (getTextureForFileDataIDAndChoice w fd' ch')" w]
      getSkinMaterialsForChoice_reads [of "snd (getSkinMaterialsForChoice w fd ch)" w]
      getTextureForFileDataIDAndChoice_reads [of "snd (getTextureForFileDataIDAndChoice w fd ch)" w]
      getTextureForFileDataIDAndChoice_reads [of "snd (getSkinMaterialsForChoice w fd' ch')" w])

subsection \<open>The feature gate\<close>

lemma loadTextureFileData_only_matRes:
  "loadTextureFileData t c =
     c\<lparr>matResIDToFileDataID := matResIDToFileDataID (loadTextureFileData t c)\<rparr>"
proof (induction t arbitrary: c)
  case Nil
  show ?case by simp
next
  case (Cons r t)
  obtain i row where r: "r = (i, row)" by (cases r)
  show ?case
  proof (cases "UsageType row \<noteq> 0")
    case True
    with r Cons.IH [of c] show ?thesis by simp
  next
    case False
    let ?c = "c\<lparr>matResIDToFileDataID := (matResIDToFileDataID c)(MaterialResourcesID_tfd row \<mapsto> i)\<rparr>"
    have "loadTextureFileData t ?c = ?c\<lparr>matResIDToFileDataID := matResIDToFileDataID (loadTextureFileData t ?c)\<rparr>"
      by (rule Cons.IH)
    with r False show ?thesis by simp
  qed
qed

lemma loadTables_gate_closed:
  "\<not> (enableCharacterCustomization e \<and> ChrModel_db2_listed e) \<Longrightarrow>
   loadTables e c0 = Inr (loadTextureFileData (textureFileData e) c0)"
  by (auto simp: loadTables_def)

lemma initial_after_textures:
  "loadTextureFileData t initial_catalog =
     initial_catalog\<lparr>matResIDToFileDataID :=
        matResIDToFileDataID (loadTextureFileData t initial_catalog)\<rparr>"
  by (rule loadTextureFileData_only_matRes)

text \<open>
  Claim C8: when the configuration flag is unset or \<open>ChrModel.db2\<close> is not listed,
  loading from the initial state succeeds, leaves every customization map empty and
  the availability flag false, and each of the three queries returns \<open>false\<close> for every
  input and leaves the state as it was.
\<close>

theorem customization_gate_closed:
  assumes "\<not> (enableCharacterCustomization e \<and> ChrModel_db2_listed e)"
  shows "\<exists>c. loadTables e initial_catalog = Inr c \<and>
           choiceToChrCustMaterialID c = Map.empty \<and> chrModelIDToTextureLayoutID c = Map.empty \<and>
           fdidToChrModel c = Map.empty \<and> optionToChoices c = Map.empty \<and>
           optionsByChrModel c = Map.empty \<and> choiceToGeoset c = Map.empty \<and>
           geosetMap c = Map.empty \<and> chrCustMatMap c = Map.empty \<and>
           chrModelTexLayer c = Map.empty \<and> charComponentTextureSectionMap c = Map.empty \<and>
           isCharacterCustomizationAvailable c = False \<and>
           getGeosetForChoice c ch = GeosetFalse \<and>
           getSkinMaterialsForChoice (w\<lparr>cat := c\<rparr>) fd ch = (Inr Unavailable, w\<lparr>cat := c\<rparr>) \<and>
           getTextureForFileDataIDAndChoice (w\<lparr>cat := c\<rparr>) fd ch =
             (Inr Unavailable, w\<lparr>cat := c\<rparr>)"
proof -
  let ?c = "loadTextureFileData (textureFileData e) initial_catalog"
  have load: "loadTables e initial_catalog = Inr ?c"
    using assms by (rule loadTables_gate_closed)
  have eq: "?c = initial_catalog\<lparr>matResIDToFileDataID := matResIDToFileDataID ?c\<rparr>"
    by (rule initial_after_textures)
  have maps: "choiceToChrCustMaterialID ?c = Map.empty" "chrModelIDToTextureLayoutID ?c = Map.empty"
    "fdidToChrModel ?c = Map.empty" "optionToChoices ?c = Map.empty"
    "optionsByChrModel ?c = Map.empty" "choiceToGeoset ?c = Map.empty"
    "geosetMap ?c = Map.empty" "chrCustMatMap ?c = Map.empty"
    "chrModelTexLayer ?c = Map.empty" "charComponentTextureSectionMap ?c = Map.empty"
    "chrCustomizationAvailable ?c = False"
    by (subst eq, simp add: initial_catalog_def)+
  have q1: "getGeosetForChoice ?c ch = GeosetFalse"
    by (simp add: getGeosetForChoice_def maps)
  have q2: "getSkinMaterialsForChoice (w\<lparr>cat := ?c\<rparr>) fd ch = (Inr Unavailable, w\<lparr>cat := ?c\<rparr>)"
    by (simp add: getSkinMaterialsForChoice_def maps getChrComponentTextureLayoutIDByChrModelID_def)
  have q3: "getTextureForFileDataIDAndChoice (w\<lparr>cat := ?c\<rparr>) fd ch = (Inr Unavailable, w\<lparr>cat := ?c\<rparr>)"
    by (simp add: getTextureForFileDataIDAndChoice_def maps)
  show ?thesis
    using load maps q1 q2 q3 by (simp add: isCharacterCustomizationAvailable_def)
qed

theorem customization_gate_closed_witness:
  "\<not> (enableCharacterCustomization (demo_env\<lparr>enableCharacterCustomization := False\<rparr>) \<and>
       ChrModel_db2_listed (demo_env\<lparr>enableCharacterCustomization := False\<rparr>)) \<and>
   (\<exists>c. loadTables (demo_env\<lparr>enableCharacterCustomization := False\<rparr>) initial_catalog = Inr c \<and>
        choiceToChrCustMaterialID c = Map.empty \<and>
        isCharacterCustomizationAvailable c = False \<and>
        getGeosetForChoice c 5 = GeosetFalse \<and>
        getSkinMaterialsForChoice ((demo_world [7])\<lparr>cat := c\<rparr>) 100 5 =
          (Inr Unavailable, (demo_world [7])\<lparr>cat := c\<rparr>) \<and>
        getTextureForFileDataIDAndChoice ((demo_world [7])\<lparr>cat := c\<rparr>) 100 5 =
          (Inr Unavailable, (demo_world [7])\<lparr>cat := c\<rparr>))"
proof -
  have closed:
    "\<not> (enableCharacterCustomization (demo_env\<lparr>enableCharacterCustomization := False\<rparr>) \<and>
         ChrModel_db2_listed (demo_env\<lparr>enableCharacterCustomization := False\<rparr>))"
    by simp
  show ?thesis
    using closed customization_gate_closed [OF closed, of 5 "demo_world [7]" 100] by blast
qed

subsection \<open>Layout 0\<close>

lemma loadOptions_candidates:
  "choiceToChrCustMaterialID (loadOptions choices m opts c) = choiceToChrCustMaterialID c"
  by (induction opts arbitrary: c) auto

lemma loadChrModels_candidates:
  "loadChrModels e ms c = Inr c' \<Longrightarrow> choiceToChrCustMaterialID c' = choiceToChrCustMaterialID c"
  by (induction ms arbitrary: c) (auto simp: loadOptions_candidates split: option.splits)

lemma loadGeosets_candidates:
  "choiceToChrCustMaterialID (loadGeosets t c) = choiceToChrCustMaterialID c"
  by (induction t arbitrary: c) auto

lemma loadLayers_candidates:
  "choiceToChrCustMaterialID (loadLayers t c) = choiceToChrCustMaterialID c"
  by (induction t arbitrary: c) auto

lemma loadSections_candidates:
  "choiceToChrCustMaterialID (loadSections t c) = choiceToChrCustMaterialID c"
  by (induction t arbitrary: c) auto

lemma loadElements_nonempty:
  "loadElements mats es c = Inr c' \<Longrightarrow> \<forall>ch. choiceToChrCustMaterialID c ch \<noteq> Some [] \<Longrightarrow>
   choiceToChrCustMaterialID c' ch \<noteq> Some []"
proof (induction es arbitrary: c)
  case Nil
  then show ?case by simp
next
  case (Cons r es)
  obtain i row where r: "r = (i, row)" by (cases r)
  show ?case
  proof (cases "ChrCustomizationMaterialID row = 0")
    case True
    with Cons.prems r have "loadElements mats es (bindGeoset row c) = Inr c'" by simp
    moreover have "\<forall>ch. choiceToChrCustMaterialID (bindGeoset row c) ch \<noteq> Some []"
      using Cons.prems(2) by (simp add: bindGeoset_def)
    ultimately show ?thesis by (rule Cons.IH)
  next
    case False
    with Cons.prems r obtain matRow :: ChrCustomizationMaterialRow where
      step: "loadElements mats es
               ((bindMaterial row (bindGeoset row c))\<lparr>chrCustMatMap :=
                  (chrCustMatMap (bindMaterial row (bindGeoset row c)))
                    (ID matRow \<mapsto> \<lparr>ChrModelTextureTargetID = ChrModelTextureTargetID_row matRow,
                                    MaterialResourcesID = MaterialResourcesID_row matRow\<rparr>)\<rparr>) = Inr c'"
      by (auto simp: Let_def split: option.splits)
    show ?thesis
    proof (rule Cons.IH [OF step])
      show "\<forall>ch. choiceToChrCustMaterialID
                  ((bindMaterial row (bindGeoset row c))\<lparr>chrCustMatMap :=
                     (chrCustMatMap (bindMaterial row (bindGeoset row c)))
                       (ID matRow \<mapsto> \<lparr>ChrModelTextureTargetID = ChrModelTextureTargetID_row matRow,
                                    MaterialResourcesID = MaterialResourcesID_row matRow\<rparr>)\<rparr>) ch \<noteq> Some []"
        using Cons.prems(2) by (auto simp: bindMaterial_def bindGeoset_def split: option.splits)
    qed
  qed
qed

lemma loadTables_candidates_nonempty:
  assumes "loadTables e initial_catalog = Inr c"
  shows "choiceToChrCustMaterialID c ch \<noteq> Some []"
proof (cases "enableCharacterCustomization e \<and> ChrModel_db2_listed e")
  case False
  then have "c = loadTextureFileData (textureFileData e) initial_catalog"
    using assms by (auto simp: loadTables_def)
  then have "choiceToChrCustMaterialID c = choiceToChrCustMaterialID initial_catalog"
    by (subst (asm) loadTextureFileData_only_matRes) simp
  then show ?thesis by (simp add: initial_catalog_def)
next
  case True
  let ?c1 = "loadTextureFileData (textureFileData e) initial_catalog"
  from True assms obtain c3 c4 where
    c3: "loadChrModels e (chrModel e) (?c1\<lparr>chrCustomizationAvailable := True\<rparr>) = Inr c3" and
    c4: "loadElements (chrCustomizationMaterial e) (chrCustomizationElement e) c3 = Inr c4" and
    c: "c = loadSections (charComponentTextureSections e)
              (loadLayers (chrModelTextureLayer e) (loadGeosets (chrCustomizationGeoset e) c4))"
    by (auto simp: loadTables_def Let_def split: sum.splits)
  have "choiceToChrCustMaterialID ?c1 = choiceToChrCustMaterialID initial_catalog"
    by (subst loadTextureFileData_only_matRes) simp
  then have "choiceToChrCustMaterialID c3 = Map.empty"
    using loadChrModels_candidates [OF c3] by (simp add: initial_catalog_def)
  then have "\<forall>ch. choiceToChrCustMaterialID c3 ch \<noteq> Some []" by simp
  with c4 have "choiceToChrCustMaterialID c4 ch \<noteq> Some []" by (rule loadElements_nonempty)
  then show ?thesis
    by (simp add: c loadSections_candidates loadLayers_candidates loadGeosets_candidates)
qed

lemma loadElements_nonzero:
  "loadElements mats es c = Inr c' \<Longrightarrow>
   \<forall>ch l. choiceToChrCustMaterialID c ch = Some l
      \<longrightarrow> (\<forall>a \<in> set l. ChrCustomizationMaterialID a \<noteq> 0) \<Longrightarrow>
   choiceToChrCustMaterialID c' ch = Some l \<Longrightarrow> a \<in> set l \<Longrightarrow>
   ChrCustomizationMaterialID a \<noteq> 0"
proof (induction es arbitrary: c)
  case Nil
  then show ?case by auto
next
  case (Cons r es)
  obtain i row where r: "r = (i, row)" by (cases r)
  show ?case
  proof (cases "ChrCustomizationMaterialID row = 0")
    case True
    with Cons.prems r have "loadElements mats es (bindGeoset row c) = Inr c'" by simp
    moreover have "\<forall>ch l. choiceToChrCustMaterialID (bindGeoset row c) ch = Some l
                     \<longrightarrow> (\<forall>a \<in> set l. ChrCustomizationMaterialID a \<noteq> 0)"
      using Cons.prems(2) by (simp add: bindGeoset_def)
    ultimately show ?thesis using Cons.prems(3,4) by (rule Cons.IH)
  next
    case False
    with Cons.prems r obtain c2 where
      step: "loadElements mats es c2 = Inr c'" and
      c2: "choiceToChrCustMaterialID c2 =
             choiceToChrCustMaterialID (bindMaterial row (bindGeoset row c))"
      by (auto simp: Let_def split: option.splits)
    have "\<forall>ch l. choiceToChrCustMaterialID c2 ch = Some l
             \<longrightarrow> (\<forall>a \<in> set l. ChrCustomizationMaterialID a \<noteq> 0)"
      unfolding c2 using Cons.prems(2) False
      by (auto simp: bindMaterial_def bindGeoset_def split: option.splits if_splits)
    with step show ?thesis using Cons.prems(3,4) by (rule Cons.IH)
  qed
qed

lemma loadTables_candidates_nonzero:
  assumes load: "loadTables e initial_catalog = Inr c"
      and bound: "choiceToChrCustMaterialID c ch = Some l"
      and member: "a \<in> set l"
  shows "ChrCustomizationMaterialID a \<noteq> 0"
proof (cases "enableCharacterCustomization e \<and> ChrModel_db2_listed e")
  case False
  then have "c = loadTextureFileData (textureFileData e) initial_catalog"
    using load by (auto simp: loadTables_def)
  then have "choiceToChrCustMaterialID c = choiceToChrCustMaterialID initial_catalog"
    by (subst (asm) loadTextureFileData_only_matRes) simp
  with bound show ?thesis by (simp add: initial_catalog_def)
next
  case True
  let ?c1 = "loadTextureFileData (textureFileData e) initial_catalog"
  from True load obtain c3 c4 where
    c3: "loadChrModels e (chrModel e) (?c1\<lparr>chrCustomizationAvailable := True\<rparr>) = Inr c3" and
    c4: "loadElements (chrCustomizationMaterial e) (chrCustomizationElement e) c3 = Inr c4" and
    c: "c = loadSections (charComponentTextureSections e)
              (loadLayers (chrModelTextureLayer e) (loadGeosets (chrCustomizationGeoset e) c4))"
    by (auto simp: loadTables_def Let_def split: sum.splits)
  have "choiceToChrCustMaterialID ?c1 = choiceToChrCustMaterialID initial_catalog"
    by (subst loadTextureFileData_only_matRes) simp
  then have "choiceToChrCustMaterialID c3 = Map.empty"
    using loadChrModels_candidates [OF c3] by (simp add: initial_catalog_def)
  then have start: "\<forall>ch l. choiceToChrCustMaterialID c3 ch = Some l
                      \<longrightarrow> (\<forall>a \<in> set l. ChrCustomizationMaterialID a \<noteq> 0)"
    by simp
  have "choiceToChrCustMaterialID c4 ch = Some l"
    using bound by (simp add: c loadSections_candidates loadLayers_candidates
        loadGeosets_candidates)
  with c4 start show ?thesis using member by (rule loadElements_nonzero)
qed

text \<open>
  Claim C10: in a state built by \<open>loadTables\<close>, a mesh whose model has texture layout 0
  gets \<open>false\<close> from both queries for every choice, whatever is registered under
  layout 0.
\<close>

theorem layout_zero_is_unavailable:
  assumes load: "loadTables e initial_catalog = Inr (cat w)"
      and model: "fdidToChrModel (cat w) fd = Some m"
      and layout: "chrModelIDToTextureLayoutID (cat w) m = Some 0"
  shows "fst (getSkinMaterialsForChoice w fd ch) = Inr Unavailable \<and>
         fst (getTextureForFileDataIDAndChoice w fd ch) = Inr Unavailable"
proof
  show "fst (getSkinMaterialsForChoice w fd ch) = Inr Unavailable"
    using model layout
    by (simp add: getSkinMaterialsForChoice_def getChrComponentTextureLayoutIDByChrModelID_def)
next
  have ne: "choiceToChrCustMaterialID (cat w) ch \<noteq> Some []"
    using load by (rule loadTables_candidates_nonempty)
  have res: "fst (resolveMaterial w' (Some m) i) = Inr Unavailable" if "cat w' = cat w" for w' i
    using that layout
    by (simp add: resolveMaterial_def getChrComponentTextureLayoutIDByChrModelID_def Let_def
        split: option.split)
  show "fst (getTextureForFileDataIDAndChoice w fd ch) = Inr Unavailable"
    using ne model
    by (auto simp: getTextureForFileDataIDAndChoice_def Let_def res console_log_def
        split: option.split list.split)
qed

theorem layout_zero_is_unavailable_witness:
  "loadTables demo_env initial_catalog = Inr (cat (demo_world [7])) \<and>
   fdidToChrModel (cat (demo_world [7])) 103 = Some 4 \<and>
   chrModelIDToTextureLayoutID (cat (demo_world [7])) 4 = Some 0 \<and>
   layerAt (cat (demo_world [7])) 0 2 = Some (demo_layer 0) \<and>
   fst (getSkinMaterialsForChoice (demo_world [7]) 103 5) = Inr Unavailable \<and>
   fst (getTextureForFileDataIDAndChoice (demo_world [7]) 103 5) = Inr Unavailable"
proof -
  have l: "loadTables demo_env initial_catalog = Inr (cat (demo_world [7]))"
    by (simp add: loadTables_demo demo_world_def)
  have m: "fdidToChrModel (cat (demo_world [7])) 103 = Some 4"
    by (simp add: demo_world_def demo_catalog_def)
  have y: "chrModelIDToTextureLayoutID (cat (demo_world [7])) 4 = Some 0"
    by (simp add: demo_world_def demo_catalog_def)
  have r: "layerAt (cat (demo_world [7])) 0 2 = Some (demo_layer 0)"
    by (simp add: demo_world_def demo_catalog_def layerAt_def)
  show ?thesis
    using layout_zero_is_unavailable [OF l m y, of 5] l m y r by simp
qed

subsection \<open>Choosing among the candidates of a choice\<close>

lemma scanChoices_filter:
  "scanChoices av acc entry =
     foldl (\<lambda>acc a. ChrCustomizationMaterialID a) acc
       (filter (\<lambda>a. RelatedChrCustomizationChoiceID a = entry) av)"
  unfolding scanChoices_def by (induction av arbitrary: acc) auto

lemma scanCurrent_matches_gen:
  "foldl (scanChoices av) acc current =
     foldl (\<lambda>acc a. ChrCustomizationMaterialID a) acc (relatedMatches current av)"
  by (induction current arbitrary: acc) (auto simp: relatedMatches_def scanChoices_filter)

lemma foldl_last_assign: "foldl (\<lambda>acc a. f a) acc xs = (if xs = [] then acc else f (last xs))"
  by (induction xs arbitrary: acc) auto

lemma scanCurrent_last:
  "scanCurrent current av =
     (if relatedMatches current av = [] then 0
      else ChrCustomizationMaterialID (last (relatedMatches current av)))"
  by (simp add: scanCurrent_def scanCurrent_matches_gen foldl_last_assign)

lemma relatedMatches_subset: "set (relatedMatches current av) \<subseteq> set av"
  by (auto simp: relatedMatches_def)

text \<open>
  Claim C2 says that the first candidate whose related choice is a current selection
  supplies the material id. In the data set choice 5 has the candidates for materials
  10 (related to choice 7) and 11 (related to choice 9); with the selections 7 and 9
  both match, the first match is material 10, and the query answers with material 11.
\<close>

theorem first_related_match_counterexample:
  "choiceToChrCustMaterialID (cat (demo_world [7, 9])) 5 = Some [demo_element1, demo_element2] \<and>
   relatedMatches [7, 9] [demo_element1, demo_element2] = [demo_element1, demo_element2] \<and>
   ChrCustomizationMaterialID demo_element1 = 10 \<and>
   fst (resolveMaterial (demo_world [7, 9]) (Some 1) 10) =
     Inr (Answer \<lparr>tex_TextureType = 1, tex_FileDataID = 2010,
                   tex_TextureSectionTypeBitMask = - 1\<rparr>) \<and>
   fst (getTextureForFileDataIDAndChoice (demo_world [7, 9]) 100 5) =
     Inr (Answer \<lparr>tex_TextureType = 6, tex_FileDataID = 2011,
                   tex_TextureSectionTypeBitMask = 5\<rparr>)"
  by (simp add: getTextureForFileDataIDAndChoice_def resolveMaterial_def demo_world_def
      demo_catalog_def getChrComponentTextureLayoutIDByChrModelID_def scanCurrent_def
      scanChoices_def relatedMatches_def console_log_def demo_element1_def demo_element2_def
      demo_layer_def demo_masked_layer_def)

text \<open>
  Claim C2 as amended: in a state built by \<open>loadTables\<close>, when some candidate's related
  choice is a current selection, the last such match, by selection and then by position
  in the candidate list, supplies the material id that is resolved.
\<close>

theorem related_choice_last_match_wins:
  assumes load: "loadTables e initial_catalog = Inr (cat w)"
      and candidates: "choiceToChrCustMaterialID (cat w) ch = Some availableChoices"
      and matched: "relatedMatches (modelViewerChrCustCurrent w) availableChoices \<noteq> []"
  shows "getTextureForFileDataIDAndChoice w fd ch =
           resolveMaterial (console_log (LogCurrent (modelViewerChrCustCurrent w)) w)
             (fdidToChrModel (cat w) fd)
             (ChrCustomizationMaterialID
                (last (relatedMatches (modelViewerChrCustCurrent w) availableChoices)))"
proof -
  have "last (relatedMatches (modelViewerChrCustCurrent w) availableChoices)
          \<in> set (relatedMatches (modelViewerChrCustCurrent w) availableChoices)"
    using matched by (rule last_in_set)
  then have "last (relatedMatches (modelViewerChrCustCurrent w) availableChoices)
               \<in> set availableChoices"
    using relatedMatches_subset by blast
  with load candidates
  have "ChrCustomizationMaterialID
          (last (relatedMatches (modelViewerChrCustCurrent w) availableChoices)) \<noteq> 0"
    by (rule loadTables_candidates_nonzero)
  with candidates matched show ?thesis
    by (simp add: getTextureForFileDataIDAndChoice_def Let_def scanCurrent_last)
qed

theorem related_choice_last_match_wins_witness:
  "choiceToChrCustMaterialID (cat (demo_world [9, 7])) 5 = Some [demo_element1, demo_element2] \<and>
   relatedMatches (modelViewerChrCustCurrent (demo_world [9, 7])) [demo_element1, demo_element2]
     = [demo_element2, demo_element1] \<and>
   ChrCustomizationMaterialID demo_element1 = 10 \<and>
   getTextureForFileDataIDAndChoice (demo_world [9, 7]) 100 5 =
     resolveMaterial (console_log (LogCurrent [9, 7]) (demo_world [9, 7])) (Some 1) 10"
proof -
  have c: "choiceToChrCustMaterialID (cat (demo_world [9, 7])) 5
             = Some [demo_element1, demo_element2]"
    by (simp add: demo_world_def demo_catalog_def)
  have m: "relatedMatches (modelViewerChrCustCurrent (demo_world [9, 7]))
             [demo_element1, demo_element2] = [demo_element2, demo_element1]"
    by (simp add: relatedMatches_def demo_world_def demo_element1_def demo_element2_def)
  have i: "ChrCustomizationMaterialID demo_element1 = 10"
    by (simp add: demo_element1_def)
  have f: "fdidToChrModel (cat (demo_world [9, 7])) 100 = Some 1"
    by (simp add: demo_world_def demo_catalog_def)
  have s: "modelViewerChrCustCurrent (demo_world [9, 7]) = [9, 7]"
    by (simp add: demo_world_def)
  have l: "loadTables demo_env initial_catalog = Inr (cat (demo_world [9, 7]))"
    by (simp add: loadTables_demo demo_world_def)
  show ?thesis
    using related_choice_last_match_wins
      [of demo_env "demo_world [9, 7]" 5 "[demo_element1, demo_element2]" 100]
      l c m i f s by simp
qed

lemma relatedMatches_none:
  "(\<forall>entry \<in> set current. \<forall>a \<in> set av. RelatedChrCustomizationChoiceID a \<noteq> entry) \<Longrightarrow>
   relatedMatches current av = []"
  by (auto simp: relatedMatches_def filter_empty_conv)

text \<open>
  Claim C7: when the candidate list is not empty and no candidate's related choice is a
  current selection, the query logs the fallback and goes on to resolve the material
  of the first candidate.
\<close>

theorem no_related_match_falls_back_to_first:
  assumes "choiceToChrCustMaterialID (cat w) ch = Some (first # others)"
      and "\<forall>entry \<in> set (modelViewerChrCustCurrent w). \<forall>a \<in> set (first # others).
             RelatedChrCustomizationChoiceID a \<noteq> entry"
  shows "getTextureForFileDataIDAndChoice w fd ch =
           resolveMaterial
             (console_log (LogFallback ch)
                (console_log (LogCurrent (modelViewerChrCustCurrent w)) w))
             (fdidToChrModel (cat w) fd) (ChrCustomizationMaterialID first)"
  using assms(1) relatedMatches_none [OF assms(2)]
  by (simp add: getTextureForFileDataIDAndChoice_def Let_def scanCurrent_last)

theorem no_related_match_falls_back_to_first_witness:
  "choiceToChrCustMaterialID (cat (demo_world [8])) 5 = Some (demo_element1 # [demo_element2]) \<and>
   modelViewerChrCustCurrent (demo_world [8]) = [8] \<and>
   RelatedChrCustomizationChoiceID demo_element1 = 7 \<and>
   RelatedChrCustomizationChoiceID demo_element2 = 9 \<and>
   getTextureForFileDataIDAndChoice (demo_world [8]) 100 5 =
     resolveMaterial
       (console_log (LogFallback 5) (console_log (LogCurrent [8]) (demo_world [8])))
       (Some 1) 10 \<and>
   fst (getTextureForFileDataIDAndChoice (demo_world [8]) 100 5) =
     Inr (Answer \<lparr>tex_TextureType = 1, tex_FileDataID = 2010,
                   tex_TextureSectionTypeBitMask = - 1\<rparr>)"
proof -
  have c: "choiceToChrCustMaterialID (cat (demo_world [8])) 5
             = Some (demo_element1 # [demo_element2])"
    by (simp add: demo_world_def demo_catalog_def)
  have n: "\<forall>entry \<in> set (modelViewerChrCustCurrent (demo_world [8])).
             \<forall>a \<in> set (demo_element1 # [demo_element2]). RelatedChrCustomizationChoiceID a \<noteq> entry"
    by (simp add: demo_world_def demo_element1_def demo_element2_def)
  have i: "ChrCustomizationMaterialID demo_element1 = 10"
    by (simp add: demo_element1_def)
  have f: "fdidToChrModel (cat (demo_world [8])) 100 = Some 1"
    by (simp add: demo_world_def demo_catalog_def)
  have s: "modelViewerChrCustCurrent (demo_world [8]) = [8]"
    by (simp add: demo_world_def)
  have r: "fst (resolveMaterial
                 (console_log (LogFallback 5) (console_log (LogCurrent [8]) (demo_world [8])))
                 (Some 1) 10) =
           Inr (Answer \<lparr>tex_TextureType = 1, tex_FileDataID = 2010,
                         tex_TextureSectionTypeBitMask = - 1\<rparr>)"
    by (simp add: resolveMaterial_def console_log_def demo_world_def demo_catalog_def
        getChrComponentTextureLayoutIDByChrModelID_def demo_layer_def)
  have e: "RelatedChrCustomizationChoiceID demo_element1 = 7"
    "RelatedChrCustomizationChoiceID demo_element2 = 9"
    by (simp_all add: demo_element1_def demo_element2_def)
  show ?thesis
    using no_related_match_falls_back_to_first [OF c n, of 100] c e i f s r by simp
qed

subsection \<open>Skin layers\<close>

lemma paintSections_sentinel:
  "TextureSectionTypeBitMask textureLayer = - 1 \<Longrightarrow>
   paintSections textureLayer fd textureSections skinMats =
     (if presentSections textureSections = [] then skinMats
      else skinMats(Layer textureLayer \<mapsto> wholeAtlasMat textureLayer fd))"
proof (induction textureSections arbitrary: skinMats)
  case Nil
  show ?case by simp
next
  case (Cons s ss)
  show ?case
  proof (cases s)
    case None
    with Cons show ?thesis by simp
  next
    case (Some x)
    have "paintSections textureLayer fd (s # ss) skinMats =
            paintSections textureLayer fd ss
              (skinMats(Layer textureLayer \<mapsto> wholeAtlasMat textureLayer fd))"
      using Some Cons.prems by simp
    also have "\<dots> = skinMats(Layer textureLayer \<mapsto> wholeAtlasMat textureLayer fd)"
      by (subst Cons.IH [OF Cons.prems]) (simp del: fun_upd_apply)
    finally show ?thesis using Some by (simp del: fun_upd_apply)
  qed
qed



lemma paintSections_other_key:
  "k \<noteq> Layer textureLayer \<Longrightarrow>
   paintSections textureLayer fd textureSections skinMats k = skinMats k"
proof (induction textureSections arbitrary: skinMats)
  case Nil
  show ?case by simp
next
  case (Cons s ss)
  then show ?case by (cases s) auto
qed

lemma paintSections_dom:
  "dom (paintSections textureLayer fd textureSections skinMats)
     \<subseteq> insert (Layer textureLayer) (dom skinMats)"
proof (induction textureSections arbitrary: skinMats)
  case Nil
  show ?case by auto
next
  case (Cons s ss)
  show ?case
  proof (cases s)
    case None
    with Cons show ?thesis by simp
  next
    case (Some x)
    have "dom (paintSections textureLayer fd (s # ss) skinMats)
            \<subseteq> insert (Layer textureLayer)
                (dom (if TextureSectionTypeBitMask textureLayer = - 1
                      then skinMats(Layer textureLayer \<mapsto> wholeAtlasMat textureLayer fd)
                      else if js_mask_test (TextureSectionTypeBitMask textureLayer) (SectionType x)
                      then skinMats(Layer textureLayer \<mapsto> sectionMat textureLayer fd x)
                      else skinMats))"
      using Some Cons.IH by simp
    also have "\<dots> \<subseteq> insert (Layer textureLayer) (dom skinMats)" by auto
    finally show ?thesis .
  qed
qed

lemma skinLoop_append:
  "skinLoop c lay secs (xs @ ys) sm =
     (case skinLoop c lay secs xs sm of Inl e \<Rightarrow> Inl e | Inr sm' \<Rightarrow> skinLoop c lay secs ys sm')"
proof (induction xs arbitrary: sm)
  case Nil
  show ?case by simp
next
  case (Cons x xs)
  show ?case
  proof (cases x)
    case None
    then show ?thesis by simp
  next
    case (Some row)
    with Cons show ?thesis by (simp split: option.split)
  qed
qed

lemma skinLoop_step:
  assumes "chrCustMatMap c (ChrCustomizationMaterialID material) = Some row"
      and "layerAt c lay (ChrModelTextureTargetID row) = Some textureLayer"
  shows "skinLoop c lay secs [chrCustMatMap c (ChrCustomizationMaterialID material)] sm =
           Inr (paintSections textureLayer (matResIDToFileDataID c (MaterialResourcesID row)) secs sm)"
  using assms by (auto simp: layerAt_def split: option.splits)

lemma skinLoop_total:
  assumes "chrModelTexLayer c lay = Some layers"
      and "\<forall>a \<in> set materials. chrCustMatMap c (ChrCustomizationMaterialID a) \<noteq> None"
  shows "\<exists>sm'. skinLoop c lay secs
                 (map (\<lambda>material. chrCustMatMap c (ChrCustomizationMaterialID material)) materials) sm
               = Inr sm' \<and>
             (\<forall>k. (\<forall>a \<in> set materials. \<forall>l. layerOfMaterial c lay a = Some l \<longrightarrow> Layer l \<noteq> k)
                    \<longrightarrow> sm' k = sm k) \<and>
             dom sm' \<subseteq> dom sm \<union>
               {k. \<exists>a \<in> set materials. \<exists>l. layerOfMaterial c lay a = Some l \<and> Layer l = k}"
  using assms(2)
proof (induction materials arbitrary: sm)
  case Nil
  show ?case by simp
next
  case (Cons a as)
  from Cons.prems obtain row where row: "chrCustMatMap c (ChrCustomizationMaterialID a) = Some row"
    by auto
  from Cons.prems have rest: "\<forall>a \<in> set as. chrCustMatMap c (ChrCustomizationMaterialID a) \<noteq> None"
    by simp
  show ?case
  proof (cases "layers (ChrModelTextureTargetID row)")
    case None
    then have lom: "layerOfMaterial c lay a = None"
      using row assms(1) by (simp add: layerOfMaterial_def layerAt_def)
    from Cons.IH [OF rest, of sm] obtain sm' where
      sm': "skinLoop c lay secs
              (map (\<lambda>material. chrCustMatMap c (ChrCustomizationMaterialID material)) as) sm = Inr sm'"
        "\<forall>k. (\<forall>a \<in> set as. \<forall>l. layerOfMaterial c lay a = Some l \<longrightarrow> Layer l \<noteq> k) \<longrightarrow> sm' k = sm k"
        "dom sm' \<subseteq> dom sm \<union>
               {k. \<exists>a \<in> set as. \<exists>l. layerOfMaterial c lay a = Some l \<and> Layer l = k}"
      by blast
    have "skinLoop c lay secs
            (map (\<lambda>material. chrCustMatMap c (ChrCustomizationMaterialID material)) (a # as)) sm = Inr sm'"
      using row assms(1) None sm'(1) by simp
    moreover have "\<forall>k. (\<forall>a \<in> set (a # as). \<forall>l. layerOfMaterial c lay a = Some l \<longrightarrow> Layer l \<noteq> k)
                     \<longrightarrow> sm' k = sm k"
      using sm'(2) by simp
    moreover have "dom sm' \<subseteq> dom sm \<union>
               {k. \<exists>a \<in> set (a # as). \<exists>l. layerOfMaterial c lay a = Some l \<and> Layer l = k}"
      using sm'(3) by auto
    ultimately show ?thesis by blast
  next
    case (Some textureLayer)
    then have lom: "layerOfMaterial c lay a = Some textureLayer"
      using row assms(1) by (simp add: layerOfMaterial_def layerAt_def)
    let ?sm1 = "paintSections textureLayer (matResIDToFileDataID c (MaterialResourcesID row)) secs sm"
    from Cons.IH [OF rest, of ?sm1] obtain sm' where
      sm': "skinLoop c lay secs
              (map (\<lambda>material. chrCustMatMap c (ChrCustomizationMaterialID material)) as) ?sm1 = Inr sm'"
        "\<forall>k. (\<forall>a \<in> set as. \<forall>l. layerOfMaterial c lay a = Some l \<longrightarrow> Layer l \<noteq> k) \<longrightarrow> sm' k = ?sm1 k"
        "dom sm' \<subseteq> dom ?sm1 \<union>
               {k. \<exists>a \<in> set as. \<exists>l. layerOfMaterial c lay a = Some l \<and> Layer l = k}"
      by blast
    have "skinLoop c lay secs
            (map (\<lambda>material. chrCustMatMap c (ChrCustomizationMaterialID material)) (a # as)) sm = Inr sm'"
      using row assms(1) Some sm'(1) by simp
    moreover have "\<forall>k. (\<forall>a \<in> set (a # as). \<forall>l. layerOfMaterial c lay a = Some l \<longrightarrow> Layer l \<noteq> k)
                     \<longrightarrow> sm' k = sm k"
    proof (intro allI impI)
      fix k
      assume k: "\<forall>a \<in> set (a # as). \<forall>l. layerOfMaterial c lay a = Some l \<longrightarrow> Layer l \<noteq> k"
      then have "k \<noteq> Layer textureLayer" using lom by auto
      then have "?sm1 k = sm k" by (rule paintSections_other_key)
      moreover have "sm' k = ?sm1 k" using sm'(2) k by simp
      ultimately show "sm' k = sm k" by simp
    qed
    moreover have "dom sm' \<subseteq> dom sm \<union>
               {k. \<exists>a \<in> set (a # as). \<exists>l. layerOfMaterial c lay a = Some l \<and> Layer l = k}"
    proof
      fix k
      assume "k \<in> dom sm'"
      with sm'(3) have "k \<in> dom ?sm1 \<or>
          (\<exists>a \<in> set as. \<exists>l. layerOfMaterial c lay a = Some l \<and> Layer l = k)" by auto
      moreover have "dom ?sm1 \<subseteq> insert (Layer textureLayer) (dom sm)"
        by (rule paintSections_dom)
      ultimately show "k \<in> dom sm \<union>
               {k. \<exists>a \<in> set (a # as). \<exists>l. layerOfMaterial c lay a = Some l \<and> Layer l = k}"
        using lom by auto
    qed
    ultimately show ?thesis by blast
  qed
qed


lemma getSkinMaterialsForChoice_at_layer:
  assumes model: "fdidToChrModel (cat w) fd = Some m"
      and layout: "chrModelIDToTextureLayoutID (cat w) m = Some textureLayout"
      and nonzero: "textureLayout \<noteq> 0"
      and materials: "choiceToChrCustMaterialID (cat w) ch = Some (pre @ material # post)"
      and rows: "\<forall>a \<in> set (pre @ material # post).
                   chrCustMatMap (cat w) (ChrCustomizationMaterialID a) \<noteq> None"
      and sections: "charComponentTextureSectionMap (cat w) textureLayout = Some textureSections"
      and row: "chrCustMatMap (cat w) (ChrCustomizationMaterialID material) = Some row"
      and layer: "layerAt (cat w) textureLayout (ChrModelTextureTargetID row) = Some textureLayer"
      and later: "\<forall>a \<in> set post. \<forall>l. layerOfMaterial (cat w) textureLayout a = Some l
                    \<longrightarrow> Layer l \<noteq> Layer textureLayer"
  shows "\<exists>sm0 sm2.
           fst (getSkinMaterialsForChoice w fd ch) = Inr (Answer sm2) \<and>
           sm2 (Layer textureLayer) =
             paintSections textureLayer (matResIDToFileDataID (cat w) (MaterialResourcesID row))
               textureSections sm0 (Layer textureLayer) \<and>
           ((\<forall>a \<in> set pre. \<forall>l. layerOfMaterial (cat w) textureLayout a = Some l
                \<longrightarrow> Layer l \<noteq> Layer textureLayer) \<longrightarrow> sm0 (Layer textureLayer) = None) \<and>
           dom sm2 \<subseteq> {k. \<exists>a \<in> set (pre @ material # post).
                            \<exists>l. layerOfMaterial (cat w) textureLayout a = Some l \<and> Layer l = k}"
proof -
  let ?c = "cat w"
  let ?R = "map (\<lambda>material. chrCustMatMap ?c (ChrCustomizationMaterialID material))"
  let ?fd = "matResIDToFileDataID ?c (MaterialResourcesID row)"
  from layer obtain layers where layers: "chrModelTexLayer ?c textureLayout = Some layers"
    by (auto simp: layerAt_def split: option.splits)
  have lom: "layerOfMaterial ?c textureLayout material = Some textureLayer"
    using row layer by (simp add: layerOfMaterial_def)
  have rows_pre: "\<forall>a \<in> set pre. chrCustMatMap ?c (ChrCustomizationMaterialID a) \<noteq> None"
    and rows_post: "\<forall>a \<in> set post. chrCustMatMap ?c (ChrCustomizationMaterialID a) \<noteq> None"
    using rows by auto
  from skinLoop_total [OF layers rows_pre, of textureSections Map.empty] obtain sm0 where
    sm0: "skinLoop ?c textureLayout textureSections (?R pre) Map.empty = Inr sm0"
      "\<forall>k. (\<forall>a \<in> set pre. \<forall>l. layerOfMaterial ?c textureLayout a = Some l \<longrightarrow> Layer l \<noteq> k)
             \<longrightarrow> sm0 k = Map.empty k"
      "dom sm0 \<subseteq> dom (Map.empty :: skinMats) \<union>
         {k. \<exists>a \<in> set pre. \<exists>l. layerOfMaterial ?c textureLayout a = Some l \<and> Layer l = k}"
    by blast
  let ?sm1 = "paintSections textureLayer ?fd textureSections sm0"
  have step: "skinLoop ?c textureLayout textureSections (?R [material]) sm0 = Inr ?sm1"
    using skinLoop_step [OF row layer] by simp
  from skinLoop_total [OF layers rows_post, of textureSections ?sm1] obtain sm2 where
    sm2: "skinLoop ?c textureLayout textureSections (?R post) ?sm1 = Inr sm2"
      "\<forall>k. (\<forall>a \<in> set post. \<forall>l. layerOfMaterial ?c textureLayout a = Some l \<longrightarrow> Layer l \<noteq> k)
             \<longrightarrow> sm2 k = ?sm1 k"
      "dom sm2 \<subseteq> dom ?sm1 \<union>
         {k. \<exists>a \<in> set post. \<exists>l. layerOfMaterial ?c textureLayout a = Some l \<and> Layer l = k}"
    by blast
  have split: "?R (pre @ material # post) = ?R pre @ (?R [material] @ ?R post)"
    by simp
  have loop: "skinLoop ?c textureLayout textureSections (?R (pre @ material # post)) Map.empty
                = Inr sm2"
    unfolding split by (simp only: skinLoop_append sm0(1) step sm2(1) sum.case)
  have result: "fst (getSkinMaterialsForChoice w fd ch) = Inr (Answer sm2)"
    using model layout nonzero materials sections loop
    by (simp add: getSkinMaterialsForChoice_def getChrComponentTextureLayoutIDByChrModelID_def)
  have at: "sm2 (Layer textureLayer) = ?sm1 (Layer textureLayer)"
    using sm2(2) later by simp
  have before: "(\<forall>a \<in> set pre. \<forall>l. layerOfMaterial ?c textureLayout a = Some l
                   \<longrightarrow> Layer l \<noteq> Layer textureLayer) \<longrightarrow> sm0 (Layer textureLayer) = None"
    using sm0(2) by simp
  have sm1: "dom ?sm1 \<subseteq> insert (Layer textureLayer) (dom sm0)"
    by (rule paintSections_dom)
  have domain: "dom sm2 \<subseteq> {k. \<exists>a \<in> set (pre @ material # post).
                            \<exists>l. layerOfMaterial ?c textureLayout a = Some l \<and> Layer l = k}"
  proof
    fix k
    assume "k \<in> dom sm2"
    with sm2(3) consider
        (post) "\<exists>a \<in> set post. \<exists>l. layerOfMaterial ?c textureLayout a = Some l \<and> Layer l = k"
      | (here) "k \<in> dom ?sm1"
      by blast
    then have "\<exists>a \<in> set (pre @ material # post).
                 \<exists>l. layerOfMaterial ?c textureLayout a = Some l \<and> Layer l = k"
    proof cases
      case post
      then show ?thesis by auto
    next
      case here
      with sm1 have "k = Layer textureLayer \<or> k \<in> dom sm0" by blast
      then show ?thesis
      proof
        assume "k = Layer textureLayer"
        with lom show ?thesis by auto
      next
        assume "k \<in> dom sm0"
        with sm0(3) have
          "\<exists>a \<in> set pre. \<exists>l. layerOfMaterial ?c textureLayout a = Some l \<and> Layer l = k"
          by auto
        then show ?thesis by auto
      qed
    qed
    then show "k \<in> {k. \<exists>a \<in> set (pre @ material # post).
                         \<exists>l. layerOfMaterial ?c textureLayout a = Some l \<and> Layer l = k}"
      by simp
  qed
  from result at before domain show ?thesis by blast
qed

text \<open>
  Claim C4 says that a layer with mask -1 always yields one entry with the rectangle
  (0, 0, 1024, 512), however many sections its layout has. Mesh 102 has layout 6; the
  first material of choice 5 resolves there to a layer with mask -1; no section is
  registered for layout 6, and the query returns \<open>false\<close> (the guard of line 335).
\<close>

theorem sentinel_layer_without_sections_counterexample:
  "getChrComponentTextureLayoutIDByChrModelID (cat (demo_world []))
     (fdidToChrModel (cat (demo_world [])) 102) = Some 6 \<and>
   choiceToChrCustMaterialID (cat (demo_world [])) 5 = Some [demo_element1, demo_element2] \<and>
   layerOfMaterial (cat (demo_world [])) 6 demo_element1 = Some (demo_layer 6) \<and>
   TextureSectionTypeBitMask (demo_layer 6) = - 1 \<and>
   charComponentTextureSectionMap (cat (demo_world [])) 6 = None \<and>
   fst (getSkinMaterialsForChoice (demo_world []) 102 5) = Inr Unavailable"
  by (simp add: getSkinMaterialsForChoice_def demo_world_def demo_catalog_def
      getChrComponentTextureLayoutIDByChrModelID_def layerOfMaterial_def layerAt_def
      demo_element1_def demo_element2_def demo_layer_def)

text \<open>
  Claim C4 as amended. Take a mesh whose model has a texture layout other than 0 and a
  choice that has material elements.

  If no section is registered for the layout, the query returns \<open>false\<close>.

  If the section array of the layout holds at least one section and every material
  element of the choice has its flattened material record, then for an element of the
  choice whose layer has mask -1 the returned array holds, at the layer's ordinal, one
  entry with size 1024 x 512 at position (0, 0), however many sections there are, unless
  a later element of the choice writes the same ordinal; and every entry of the array
  sits at the ordinal of a layer that some element of the choice resolves to.
\<close>

theorem sentinel_mask_paints_whole_atlas:
  assumes model: "fdidToChrModel (cat w) fd = Some m"
      and layout: "chrModelIDToTextureLayoutID (cat w) m = Some textureLayout"
      and nonzero: "textureLayout \<noteq> 0"
      and materials: "choiceToChrCustMaterialID (cat w) ch = Some (pre @ material # post)"
  shows "(charComponentTextureSectionMap (cat w) textureLayout = None
          \<longrightarrow> fst (getSkinMaterialsForChoice w fd ch) = Inr Unavailable) \<and>
         (charComponentTextureSectionMap (cat w) textureLayout = Some textureSections \<and>
          presentSections textureSections \<noteq> [] \<and>
          (\<forall>a \<in> set (pre @ material # post).
             chrCustMatMap (cat w) (ChrCustomizationMaterialID a) \<noteq> None) \<and>
          chrCustMatMap (cat w) (ChrCustomizationMaterialID material) = Some row \<and>
          layerAt (cat w) textureLayout (ChrModelTextureTargetID row) = Some textureLayer \<and>
          TextureSectionTypeBitMask textureLayer = - 1 \<and>
          (\<forall>a \<in> set post. \<forall>l. layerOfMaterial (cat w) textureLayout a = Some l
             \<longrightarrow> Layer l \<noteq> Layer textureLayer)
          \<longrightarrow> (\<exists>skinMats.
                 fst (getSkinMaterialsForChoice w fd ch) = Inr (Answer skinMats) \<and>
                 skinMats (Layer textureLayer) =
                   Some \<lparr> skin_TextureType = TextureType textureLayer,
                          skin_FileDataID =
                            matResIDToFileDataID (cat w) (MaterialResourcesID row),
                          skin_size = (1024, 512), skin_position = (0, 0) \<rparr> \<and>
                 dom skinMats \<subseteq>
                   {k. \<exists>a \<in> set (pre @ material # post).
                         \<exists>l. layerOfMaterial (cat w) textureLayout a = Some l \<and> Layer l = k}))"
proof (intro conjI impI)
  assume "charComponentTextureSectionMap (cat w) textureLayout = None"
  then show "fst (getSkinMaterialsForChoice w fd ch) = Inr Unavailable"
    using model layout nonzero materials
    by (simp add: getSkinMaterialsForChoice_def getChrComponentTextureLayoutIDByChrModelID_def)
next
  assume a: "charComponentTextureSectionMap (cat w) textureLayout = Some textureSections \<and>
          presentSections textureSections \<noteq> [] \<and>
          (\<forall>a \<in> set (pre @ material # post).
             chrCustMatMap (cat w) (ChrCustomizationMaterialID a) \<noteq> None) \<and>
          chrCustMatMap (cat w) (ChrCustomizationMaterialID material) = Some row \<and>
          layerAt (cat w) textureLayout (ChrModelTextureTargetID row) = Some textureLayer \<and>
          TextureSectionTypeBitMask textureLayer = - 1 \<and>
          (\<forall>a \<in> set post. \<forall>l. layerOfMaterial (cat w) textureLayout a = Some l
             \<longrightarrow> Layer l \<noteq> Layer textureLayer)"
  then have sections: "charComponentTextureSectionMap (cat w) textureLayout = Some textureSections"
    and present: "presentSections textureSections \<noteq> []"
    and rows: "\<forall>a \<in> set (pre @ material # post).
                 chrCustMatMap (cat w) (ChrCustomizationMaterialID a) \<noteq> None"
    and row: "chrCustMatMap (cat w) (ChrCustomizationMaterialID material) = Some row"
    and layer: "layerAt (cat w) textureLayout (ChrModelTextureTargetID row) = Some textureLayer"
    and sentinel: "TextureSectionTypeBitMask textureLayer = - 1"
    and later: "\<forall>a \<in> set post. \<forall>l. layerOfMaterial (cat w) textureLayout a = Some l
                  \<longrightarrow> Layer l \<noteq> Layer textureLayer"
    by blast+
  from getSkinMaterialsForChoice_at_layer
    [OF model layout nonzero materials rows sections row layer later]
  obtain sm0 sm2 where
    r: "fst (getSkinMaterialsForChoice w fd ch) = Inr (Answer sm2)" and
    p: "sm2 (Layer textureLayer) =
          paintSections textureLayer (matResIDToFileDataID (cat w) (MaterialResourcesID row))
            textureSections sm0 (Layer textureLayer)" and
    d: "dom sm2 \<subseteq> {k. \<exists>a \<in> set (pre @ material # post).
                       \<exists>l. layerOfMaterial (cat w) textureLayout a = Some l \<and> Layer l = k}"
    by blast
  have "sm2 (Layer textureLayer) =
          Some (wholeAtlasMat textureLayer (matResIDToFileDataID (cat w) (MaterialResourcesID row)))"
    using p present by (simp add: paintSections_sentinel [OF sentinel])
  with r d show "\<exists>skinMats.
                 fst (getSkinMaterialsForChoice w fd ch) = Inr (Answer skinMats) \<and>
                 skinMats (Layer textureLayer) =
                   Some \<lparr> skin_TextureType = TextureType textureLayer,
                          skin_FileDataID =
                            matResIDToFileDataID (cat w) (MaterialResourcesID row),
                          skin_size = (1024, 512), skin_position = (0, 0) \<rparr> \<and>
                 dom skinMats \<subseteq>
                   {k. \<exists>a \<in> set (pre @ material # post).
                         \<exists>l. layerOfMaterial (cat w) textureLayout a = Some l \<and> Layer l = k}"
    unfolding wholeAtlasMat_def by blast
qed

theorem sentinel_mask_paints_whole_atlas_witness:
  "presentSections demo_sections \<noteq> [] \<and>
   TextureSectionTypeBitMask (demo_layer 3) = - 1 \<and>
   (\<exists>skinMats.
      fst (getSkinMaterialsForChoice (demo_world []) 100 5) = Inr (Answer skinMats) \<and>
      skinMats 0 =
        Some \<lparr> skin_TextureType = 1, skin_FileDataID = Some 2010,
               skin_size = (1024, 512), skin_position = (0, 0) \<rparr>) \<and>
   charComponentTextureSectionMap (cat (demo_world [])) 6 = None \<and>
   fst (getSkinMaterialsForChoice (demo_world []) 102 5) = Inr Unavailable"
proof -
  let ?w = "demo_world []"
  let ?row = "\<lparr>ChrModelTextureTargetID = 2, MaterialResourcesID = 70\<rparr>"
  have model: "fdidToChrModel (cat ?w) 100 = Some 1"
    by (simp add: demo_world_def demo_catalog_def)
  have layout: "chrModelIDToTextureLayoutID (cat ?w) 1 = Some 3"
    by (simp add: demo_world_def demo_catalog_def)
  have nonzero: "(3::int) \<noteq> 0" by simp
  have materials: "choiceToChrCustMaterialID (cat ?w) 5 = Some ([] @ demo_element1 # [demo_element2])"
    by (simp add: demo_world_def demo_catalog_def)
  have rows: "\<forall>a \<in> set ([] @ demo_element1 # [demo_element2]).
                chrCustMatMap (cat ?w) (ChrCustomizationMaterialID a) \<noteq> None"
    by (simp add: demo_world_def demo_catalog_def demo_element1_def demo_element2_def)
  have sections: "charComponentTextureSectionMap (cat ?w) 3 = Some demo_sections"
    by (simp add: demo_world_def demo_catalog_def)
  have present: "presentSections demo_sections \<noteq> []"
    by (simp add: demo_sections_def)
  have row: "chrCustMatMap (cat ?w) (ChrCustomizationMaterialID demo_element1) = Some ?row"
    by (simp add: demo_world_def demo_catalog_def demo_element1_def)
  have layer: "layerAt (cat ?w) 3 (ChrModelTextureTargetID ?row) = Some (demo_layer 3)"
    by (simp add: demo_world_def demo_catalog_def layerAt_def)
  have sentinel: "TextureSectionTypeBitMask (demo_layer 3) = - 1"
    by (simp add: demo_layer_def)
  have later: "\<forall>a \<in> set [demo_element2]. \<forall>l. layerOfMaterial (cat ?w) 3 a = Some l
                 \<longrightarrow> Layer l \<noteq> Layer (demo_layer 3)"
    by (simp add: demo_world_def demo_catalog_def layerOfMaterial_def layerAt_def
        demo_element2_def demo_layer_def demo_masked_layer_def)
  have vals: "Layer (demo_layer 3) = 0" "TextureType (demo_layer 3) = 1"
    "matResIDToFileDataID (cat ?w) (MaterialResourcesID ?row) = Some 2010"
    by (simp_all add: demo_layer_def demo_world_def demo_catalog_def)
  have painted: "\<exists>skinMats.
      fst (getSkinMaterialsForChoice ?w 100 5) = Inr (Answer skinMats) \<and>
      skinMats 0 =
        Some \<lparr> skin_TextureType = 1, skin_FileDataID = Some 2010,
               skin_size = (1024, 512), skin_position = (0, 0) \<rparr>"
    using sentinel_mask_paints_whole_atlas
      [OF model layout nonzero materials, of demo_sections ?row "demo_layer 3"]
      rows sections present row layer sentinel later
    unfolding vals by blast
  have model': "fdidToChrModel (cat ?w) 102 = Some 3"
    by (simp add: demo_world_def demo_catalog_def)
  have layout': "chrModelIDToTextureLayoutID (cat ?w) 3 = Some 6"
    by (simp add: demo_world_def demo_catalog_def)
  have nonzero': "(6::int) \<noteq> 0" by simp
  have bare: "charComponentTextureSectionMap (cat ?w) 6 = None"
    by (simp add: demo_world_def demo_catalog_def)
  have refused: "fst (getSkinMaterialsForChoice ?w 102 5) = Inr Unavailable"
    using sentinel_mask_paints_whole_atlas
      [OF model' layout' nonzero' materials, of demo_sections ?row "demo_layer 6"] bare
    by blast
  show ?thesis using present sentinel painted bare refused by blast
qed




subsection \<open>Geoset keys\<close>

lemma digit_val_digit_char: "d < 10 \<Longrightarrow> digit_val (digit_char d) = d"
  by (simp add: digit_val_def digit_char_def)

lemma is_digit_digit_char: "d < 10 \<Longrightarrow> is_digit (digit_char d)"
  by (simp add: is_digit_def digit_char_def)

lemma is_digit_not_sign: "is_digit ch \<Longrightarrow> ch \<noteq> CHR ''-'' \<and> ch \<noteq> CHR ''+''"
  by (auto simp: is_digit_def)

lemma digit_val_zero: "digit_val CHR ''0'' = 0"
  by (simp add: digit_val_def)

lemma is_digit_zero: "is_digit CHR ''0''"
  by (simp add: is_digit_def)

lemma digits_all_digit: "list_all is_digit (digits n)"
proof (induction n rule: digits.induct)
  case (1 n)
  show ?case
  proof (cases "n < 10")
    case True
    then show ?thesis by (subst digits.simps) (simp add: is_digit_digit_char)
  next
    case False
    with 1 show ?thesis by (subst digits.simps) (simp add: is_digit_digit_char)
  qed
qed

lemma digits_nonempty: "digits n \<noteq> []"
  by (subst digits.simps) simp

lemma read_decimal_snoc: "read_decimal (s @ [ch]) = 10 * read_decimal s + digit_val ch"
  by (simp add: read_decimal_def)

lemma read_decimal_digits: "read_decimal (digits n) = n"
proof (induction n rule: digits.induct)
  case (1 n)
  show ?case
  proof (cases "n < 10")
    case True
    then show ?thesis
      by (subst digits.simps) (simp add: read_decimal_def digit_val_digit_char)
  next
    case False
    then have "read_decimal (digits n) = 10 * read_decimal (digits (n div 10)) + n mod 10"
      by (subst digits.simps) (simp add: read_decimal_snoc digit_val_digit_char)
    also have "\<dots> = 10 * (n div 10) + n mod 10" using 1 False by simp
    finally show ?thesis by simp
  qed
qed

lemma foldl_decimal_shift:
  "foldl (\<lambda>acc ch. 10 * acc + digit_val ch) a s =
     a * 10 ^ length s + foldl (\<lambda>acc ch. 10 * acc + digit_val ch) 0 s"
proof (induction s arbitrary: a)
  case Nil
  show ?case by simp
next
  case (Cons x xs)
  have "foldl (\<lambda>acc ch. 10 * acc + digit_val ch) a (x # xs) =
          (10 * a + digit_val x) * 10 ^ length xs + foldl (\<lambda>acc ch. 10 * acc + digit_val ch) 0 xs"
    using Cons.IH [of "10 * a + digit_val x"] by simp
  moreover have "foldl (\<lambda>acc ch. 10 * acc + digit_val ch) 0 (x # xs) =
          digit_val x * 10 ^ length xs + foldl (\<lambda>acc ch. 10 * acc + digit_val ch) 0 xs"
    using Cons.IH [of "digit_val x"] by simp
  ultimately show ?case by (simp add: algebra_simps)
qed

lemma read_decimal_append:
  "read_decimal (s @ t) = read_decimal s * 10 ^ length t + read_decimal t"
  unfolding read_decimal_def by (simp add: foldl_decimal_shift [of "foldl _ _ s"])

lemma read_decimal_zeros: "read_decimal (replicate k CHR ''0'') = 0"
  unfolding read_decimal_def by (induction k) (simp_all add: digit_val_zero)

lemma read_decimal_padStart: "read_decimal (padStart k s) = read_decimal s"
  by (simp add: padStart_def read_decimal_append read_decimal_zeros)

lemma length_padStart: "length (padStart k s) = max k (length s)"
  by (simp add: padStart_def)

lemma padStart_all_digit: "list_all is_digit s \<Longrightarrow> list_all is_digit (padStart k s)"
  by (auto simp: padStart_def list_all_iff is_digit_zero)

lemma js_Number_digits:
  assumes "list_all is_digit s" "s \<noteq> []"
  shows "js_Number s = exact_or_rounded (int (read_decimal s))"
proof -
  from assms obtain ch cs where s: "s = ch # cs" by (cases s) auto
  with assms(1) have "is_digit ch" by simp
  then have "ch \<noteq> CHR ''-''" "ch \<noteq> CHR ''+''" using is_digit_not_sign by auto
  with assms(1) s show ?thesis by (simp add: js_Number_def)
qed

lemma toString_nonneg: "0 \<le> i \<Longrightarrow> toString i = digits (nat i)"
  by (simp add: toString_def)

lemma geosetKey_decimal:
  assumes g: "0 \<le> GeosetType row" and v: "0 \<le> GeosetID row"
  shows "geosetKey row =
           exact_or_rounded
             (GeosetType row * 10 ^ max 2 (length (toString (GeosetID row))) + GeosetID row)"
proof -
  let ?g = "padStart 2 (toString (GeosetType row))"
  let ?v = "padStart 2 (toString (GeosetID row))"
  have dg: "list_all is_digit ?g" and dv: "list_all is_digit ?v"
    using g v by (simp_all add: toString_nonneg padStart_all_digit digits_all_digit)
  have ne: "?g @ ?v \<noteq> []"
    using g by (simp add: padStart_def toString_nonneg digits_nonempty)
  have "js_Number (?g @ ?v) = exact_or_rounded (int (read_decimal (?g @ ?v)))"
    using dg dv ne by (intro js_Number_digits) simp_all
  moreover have "int (read_decimal (?g @ ?v)) =
      GeosetType row * 10 ^ max 2 (length (toString (GeosetID row))) + GeosetID row"
    using g v
    by (simp add: read_decimal_append read_decimal_padStart length_padStart toString_nonneg
        read_decimal_digits)
  ultimately show ?thesis by (simp add: geosetKey_def)
qed

lemma length_digits_small: "n < 100 \<Longrightarrow> length (digits n) \<le> 2"
proof (cases "n < 10")
  case True
  then show ?thesis by (subst digits.simps) simp
next
  case False
  assume "n < 100"
  then have "n div 10 < 10" by simp
  then have "length (digits (n div 10)) = 1" by (subst digits.simps) simp
  with False show ?thesis by (subst digits.simps) simp
qed

lemma geosetKey_two_digit:
  assumes "0 \<le> GeosetType row" "0 \<le> GeosetID row" "GeosetID row < 100"
  shows "geosetKey row = exact_or_rounded (GeosetType row * 100 + GeosetID row)"
proof -
  have "length (toString (GeosetID row)) \<le> 2"
    using assms by (simp add: toString_nonneg length_digits_small)
  then have "max 2 (length (toString (GeosetID row))) = 2" by simp
  with geosetKey_decimal [OF assms(1,2)] show ?thesis by simp
qed

lemma loadGeosets_other_fields:
  "choiceToGeoset (loadGeosets t c) = choiceToGeoset c"
  by (induction t arbitrary: c) auto

lemma loadGeosets_geosetMap:
  "distinct (map fst t) \<Longrightarrow> map_of t gid = Some row \<Longrightarrow>
   geosetMap (loadGeosets t c) gid = Some (geosetKey row)"
proof (induction t arbitrary: c)
  case Nil
  then show ?case by simp
next
  case (Cons r t)
  obtain i row' where r: "r = (i, row')" by (cases r)
  show ?case
  proof (cases "i = gid")
    case True
    with Cons.prems r have row: "row' = row" by simp
    have notin: "gid \<notin> fst ` set t" using Cons.prems(1) r True by auto
    have keep: "geosetMap (loadGeosets t c') gid = geosetMap c' gid" for c'
      using notin by (induction t arbitrary: c') auto
    show ?thesis using r True row by (simp add: keep)
  next
    case False
    with Cons.prems r have "map_of t gid = Some row" "distinct (map fst t)" by auto
    from Cons.IH [OF this(2) this(1)] show ?thesis using r by simp
  qed
qed

lemma loadOptions_choiceToGeoset:
  "choiceToGeoset (loadOptions choices m opts c) = choiceToGeoset c"
  by (induction opts arbitrary: c) auto

lemma loadChrModels_choiceToGeoset:
  "loadChrModels e ms c = Inr c' \<Longrightarrow> choiceToGeoset c' = choiceToGeoset c"
  by (induction ms arbitrary: c) (auto simp: loadOptions_choiceToGeoset split: option.splits)

lemma loadLayers_geosets:
  "choiceToGeoset (loadLayers t c) = choiceToGeoset c \<and> geosetMap (loadLayers t c) = geosetMap c"
  by (induction t arbitrary: c) auto

lemma loadSections_geosets:
  "choiceToGeoset (loadSections t c) = choiceToGeoset c \<and>
   geosetMap (loadSections t c) = geosetMap c"
  by (induction t arbitrary: c) auto

lemma bindGeoset_choiceToGeoset:
  "choiceToGeoset (bindGeoset row c) ch =
     (if ChrCustomizationChoiceID row = ch \<and> ChrCustomizationGeosetID row \<noteq> 0
      then Some (ChrCustomizationGeosetID row) else choiceToGeoset c ch)"
  by (simp add: bindGeoset_def)

lemma loadElements_choiceToGeoset:
  "loadElements mats es c = Inr c' \<Longrightarrow>
   choiceToGeoset c' ch =
     (if boundGeosets es ch = [] then choiceToGeoset c ch else Some (last (boundGeosets es ch)))"
proof (induction es arbitrary: c)
  case Nil
  then show ?case by (simp add: boundGeosets_def)
next
  case (Cons r es)
  obtain i row where r: "r = (i, row)" by (cases r)
  from Cons.prems r obtain c1 where
    step: "loadElements mats es c1 = Inr c'" and
    c1: "choiceToGeoset c1 = choiceToGeoset (bindGeoset row c)"
    by (auto simp: Let_def bindMaterial_def split: if_splits option.splits)
  have "choiceToGeoset c' ch =
          (if boundGeosets es ch = [] then choiceToGeoset c1 ch
           else Some (last (boundGeosets es ch)))"
    using step by (rule Cons.IH)
  then show ?case
    using r c1 by (simp add: bindGeoset_choiceToGeoset boundGeosets_def)
qed

lemma loadTables_geosets:
  assumes load: "loadTables e initial_catalog = Inr c"
      and gate: "enableCharacterCustomization e" "ChrModel_db2_listed e"
  shows "choiceToGeoset c ch =
           (if boundGeosets (chrCustomizationElement e) ch = [] then None
            else Some (last (boundGeosets (chrCustomizationElement e) ch)))"
    and "\<exists>c4. geosetMap c = geosetMap (loadGeosets (chrCustomizationGeoset e) c4)"
proof -
  let ?c1 = "loadTextureFileData (textureFileData e) initial_catalog"
  from gate load obtain c3 c4 where
    c3: "loadChrModels e (chrModel e) (?c1\<lparr>chrCustomizationAvailable := True\<rparr>) = Inr c3" and
    c4: "loadElements (chrCustomizationMaterial e) (chrCustomizationElement e) c3 = Inr c4" and
    c: "c = loadSections (charComponentTextureSections e)
              (loadLayers (chrModelTextureLayer e) (loadGeosets (chrCustomizationGeoset e) c4))"
    by (auto simp: loadTables_def Let_def split: sum.splits)
  have "choiceToGeoset ?c1 = choiceToGeoset initial_catalog"
    by (subst loadTextureFileData_only_matRes) simp
  then have "choiceToGeoset c3 = Map.empty"
    using loadChrModels_choiceToGeoset [OF c3] by (simp add: initial_catalog_def)
  with loadElements_choiceToGeoset [OF c4, of ch]
  have "choiceToGeoset c4 ch =
           (if boundGeosets (chrCustomizationElement e) ch = [] then None
            else Some (last (boundGeosets (chrCustomizationElement e) ch)))"
    by simp
  then show "choiceToGeoset c ch =
           (if boundGeosets (chrCustomizationElement e) ch = [] then None
            else Some (last (boundGeosets (chrCustomizationElement e) ch)))"
    by (simp add: c loadSections_geosets loadLayers_geosets loadGeosets_other_fields)
  show "\<exists>c4. geosetMap c = geosetMap (loadGeosets (chrCustomizationGeoset e) c4)"
    by (auto simp: c loadSections_geosets loadLayers_geosets)
qed

text \<open>
  Claim C6: after loading, a choice with a bound geoset element whose geoset row exists
  gets from \<open>getGeosetForChoice\<close> the number read from the two tags, each padded to two
  digits, written one after the other: the group tag shifted left by the number of
  digits of the padded variant tag, plus the variant tag (105 for group 1 and variant
  5, 1203 for 12 and 3). A choice without a bound geoset element gets \<open>false\<close>. The tags
  are not negative, the number is one a double holds exactly, and of several geoset
  elements of a choice the last one counts.
\<close>

theorem geoset_key_of_choice:
  assumes load: "loadTables e initial_catalog = Inr c"
      and gate: "enableCharacterCustomization e" "ChrModel_db2_listed e"
      and ids: "distinct (map fst (chrCustomizationGeoset e))"
  shows "(boundGeosets (chrCustomizationElement e) ch \<noteq> [] \<and>
          getRow (chrCustomizationGeoset e) (last (boundGeosets (chrCustomizationElement e) ch))
            = Some row \<and>
          0 \<le> GeosetType row \<and> 0 \<le> GeosetID row \<and>
          GeosetType row * 10 ^ max 2 (length (toString (GeosetID row))) + GeosetID row \<le> 2 ^ 53
          \<longrightarrow> getGeosetForChoice c ch =
                GeosetNumber
                  (Num (GeosetType row * 10 ^ max 2 (length (toString (GeosetID row)))
                        + GeosetID row))) \<and>
         (boundGeosets (chrCustomizationElement e) ch = []
          \<longrightarrow> getGeosetForChoice c ch = GeosetFalse)"
proof (intro conjI impI)
  assume "boundGeosets (chrCustomizationElement e) ch = []"
  then show "getGeosetForChoice c ch = GeosetFalse"
    using loadTables_geosets(1) [OF load gate, of ch] by (simp add: getGeosetForChoice_def)
next
  let ?gid = "last (boundGeosets (chrCustomizationElement e) ch)"
  let ?key = "GeosetType row * 10 ^ max 2 (length (toString (GeosetID row))) + GeosetID row"
  assume a: "boundGeosets (chrCustomizationElement e) ch \<noteq> [] \<and>
          getRow (chrCustomizationGeoset e) ?gid = Some row \<and>
          0 \<le> GeosetType row \<and> 0 \<le> GeosetID row \<and> ?key \<le> 2 ^ 53"
  then have bound: "choiceToGeoset c ch = Some ?gid"
    using loadTables_geosets(1) [OF load gate, of ch] by simp
  from loadTables_geosets(2) [OF load gate] obtain c4 where
    "geosetMap c = geosetMap (loadGeosets (chrCustomizationGeoset e) c4)" by blast
  moreover have "geosetMap (loadGeosets (chrCustomizationGeoset e) c4) ?gid = Some (geosetKey row)"
    using ids a by (intro loadGeosets_geosetMap) (simp_all add: getRow_def)
  ultimately have key: "geosetMap c ?gid = Some (geosetKey row)" by simp
  have "0 \<le> ?key" using a by simp
  then have "geosetKey row = Num ?key"
    using a by (simp add: geosetKey_decimal exact_or_rounded_def)
  with bound key show "getGeosetForChoice c ch = GeosetNumber (Num ?key)"
    by (simp add: getGeosetForChoice_def)
qed

theorem geoset_key_of_choice_witness:
  "loadTables demo_env initial_catalog = Inr demo_catalog \<and>
   boundGeosets (chrCustomizationElement demo_env) 5 = [8] \<and>
   getRow (chrCustomizationGeoset demo_env) 8 = Some \<lparr>GeosetType = 1, GeosetID = 5\<rparr> \<and>
   getGeosetForChoice demo_catalog 5 = GeosetNumber (Num 105) \<and>
   boundGeosets (chrCustomizationElement demo_env) 6 = [] \<and>
   getGeosetForChoice demo_catalog 6 = GeosetFalse"
proof -
  have gate: "enableCharacterCustomization demo_env" "ChrModel_db2_listed demo_env"
    by (simp_all add: demo_env_def)
  have ids: "distinct (map fst (chrCustomizationGeoset demo_env))"
    by (simp add: demo_env_def)
  have b5: "boundGeosets (chrCustomizationElement demo_env) 5 = [8]"
    by (simp add: boundGeosets_def demo_env_def)
  have b6: "boundGeosets (chrCustomizationElement demo_env) 6 = []"
    by (simp add: boundGeosets_def demo_env_def)
  have row: "getRow (chrCustomizationGeoset demo_env) 8 = Some \<lparr>GeosetType = 1, GeosetID = 5\<rparr>"
    by (simp add: getRow_def demo_env_def)
  have len: "length (toString 5) = 1"
    by code_simp
  have k5: "getGeosetForChoice demo_catalog 5 = GeosetNumber (Num 105)"
    using geoset_key_of_choice [OF loadTables_demo gate ids,
        of 5 "\<lparr>GeosetType = 1, GeosetID = 5\<rparr>"] b5 row len
    by simp
  have k6: "getGeosetForChoice demo_catalog 6 = GeosetFalse"
    using geoset_key_of_choice [OF loadTables_demo gate ids,
        of 6 "\<lparr>GeosetType = 1, GeosetID = 5\<rparr>"] b6
    by simp
  show ?thesis using loadTables_demo b5 b6 row k5 k6 by simp
qed

end
